theory Spec2Isabelle
  imports Complex_Main
begin

section \<open>JavaScript values used by the sync engine\<close>

text \<open>
  The engine is written in JavaScript. Numbers are IEEE doubles; the model keeps the exact
  decimal value of a parsed literal as a rational and applies the two roundings that decide
  truthiness: a magnitude of at most \<open>2^-1075\<close> rounds to zero, a magnitude of at least
  \<open>2^1024 - 2^970\<close> rounds to an infinity. In between, \<open>Fin q\<close> stands for the double
  nearest to \<open>q\<close>.
\<close>

datatype jsnum = NaN | PosInf | NegInf | Fin rat

text \<open>
  A raw row (one element of the \<open>data\<close> array of a RESTlet page) maps column labels to
  strings or null; a label that is absent reads as \<open>undefined\<close>.
\<close>

datatype rawval = RUndefined | RNull | RStr string

type_synonym rawRecord = "(string \<times> rawval) list"

text \<open>
  Values of processed rows and of arguments. \<open>JBuiltin n\<close> is the built-in object that
  an object literal inherits as its member \<open>n\<close> from \<open>Object.prototype\<close>.
\<close>

datatype jsval = JUndefined | JNull | JNum jsnum | JStr string | JBuiltin string

type_synonym row = "(string \<times> jsval) list"

definition jsFloat :: "rat \<Rightarrow> jsnum" where
  "jsFloat q =
     (if \<bar>q\<bar> \<le> 1 / 2 ^ 1075 then Fin 0
      else if 2 ^ 1024 - 2 ^ 970 \<le> \<bar>q\<bar> then (if 0 < q then PosInf else NegInf)
      else Fin q)"

fun truthyRaw :: "rawval \<Rightarrow> bool" where
  "truthyRaw RUndefined = False"
| "truthyRaw RNull = False"
| "truthyRaw (RStr s) = (s \<noteq> [])"

fun truthyNum :: "jsnum \<Rightarrow> bool" where
  "truthyNum NaN = False"
| "truthyNum (Fin q) = (q \<noteq> 0)"
| "truthyNum PosInf = True"
| "truthyNum NegInf = True"

fun truthy :: "jsval \<Rightarrow> bool" where
  "truthy JUndefined = False"
| "truthy JNull = False"
| "truthy (JNum n) = truthyNum n"
| "truthy (JStr s) = (s \<noteq> [])"
| "truthy (JBuiltin n) = True"

text \<open>\<open>record[key]\<close> on a raw row.\<close>

definition rget :: "rawRecord \<Rightarrow> string \<Rightarrow> rawval" where
  "rget r k = (case map_of r k of None \<Rightarrow> RUndefined | Some v \<Rightarrow> v)"

text \<open>\<open>row[key]\<close> on a processed row.\<close>

definition getField :: "row \<Rightarrow> string \<Rightarrow> jsval" where
  "getField r k = (case map_of r k of None \<Rightarrow> JUndefined | Some v \<Rightarrow> v)"

subsection \<open>The builtins \<open>parseInt(s, 10)\<close> and \<open>parseFloat(s)\<close>\<close>

text \<open>
  A \<open>char\<close> is read as a code unit below 256; the white space skipped by both builtins is
  then TAB, LF, VT, FF, CR, SP and NBSP.
\<close>

definition isDigit :: "char \<Rightarrow> bool" where
  "isDigit c = (48 \<le> (of_char c :: nat) \<and> (of_char c :: nat) \<le> 57)"

definition isWhiteSpace :: "char \<Rightarrow> bool" where
  "isWhiteSpace c = ((of_char c :: nat) \<in> {9, 10, 11, 12, 13, 32, 160})"

definition digitVal :: "char \<Rightarrow> nat" where
  "digitVal c = (of_char c :: nat) - 48"

definition digitsVal :: "string \<Rightarrow> nat" where
  "digitsVal ds = foldl (\<lambda>a c. 10 * a + digitVal c) 0 ds"

text \<open>An optional sign: the factor and the rest of the text.\<close>

fun takeSign :: "string \<Rightarrow> rat \<times> string" where
  "takeSign [] = (1, [])"
| "takeSign (c # cs) =
     (if c = CHR ''+'' then (1, cs) else if c = CHR ''-'' then (-1, cs) else (1, c # cs))"

text \<open>
  \<open>parseInt(s, 10)\<close>: leading white space is skipped, a sign is read, then the longest
  run of decimal digits; no digit gives \<open>NaN\<close>.
\<close>

definition parseInt10 :: "string \<Rightarrow> jsnum" where
  "parseInt10 s =
     (let (sg, u) = takeSign (dropWhile isWhiteSpace s);
          ds = takeWhile isDigit u
      in if ds = [] then NaN else jsFloat (sg * of_nat (digitsVal ds)))"

text \<open>The exponent part \<open>e\<close>, \<open>E\<close> with an optional sign and at least one digit; 0 when absent or malformed.\<close>

fun exponentPart :: "string \<Rightarrow> int" where
  "exponentPart [] = 0"
| "exponentPart (c # cs) =
     (if c = CHR ''e'' \<or> c = CHR ''E'' then
        (let (sg, u) = takeSign cs; ds = takeWhile isDigit u
         in if ds = [] then 0 else (if sg < 0 then - int (digitsVal ds) else int (digitsVal ds)))
      else 0)"

definition scale10 :: "rat \<Rightarrow> int \<Rightarrow> rat" where
  "scale10 q e = (if 0 \<le> e then q * 10 ^ nat e else q / 10 ^ nat (- e))"

text \<open>
  \<open>parseFloat(s)\<close>: leading white space is skipped and the longest prefix that is a
  decimal literal (sign, \<open>Infinity\<close>, or digits with an optional fraction and exponent) is
  read; no such prefix gives \<open>NaN\<close>.
\<close>

definition parseFloat :: "string \<Rightarrow> jsnum" where
  "parseFloat s =
     (let (sg, u) = takeSign (dropWhile isWhiteSpace s) in
      if take 8 u = ''Infinity'' then (if sg < 0 then NegInf else PosInf)
      else
        let ip = takeWhile isDigit u;
            r1 = dropWhile isDigit u;
            hasDot = (r1 \<noteq> [] \<and> hd r1 = CHR ''.'');
            fp = (if hasDot then takeWhile isDigit (tl r1) else []);
            r2 = (if hasDot then dropWhile isDigit (tl r1) else r1)
        in if ip = [] \<and> fp = [] then NaN
           else jsFloat (scale10
                  (sg * (of_nat (digitsVal ip) + of_nat (digitsVal fp) / 10 ^ length fp))
                  (exponentPart r2)))"

section \<open>Record normalizer: the coercion helpers of \<open>processRecordsForTable\<close>\<close>

text \<open>\<open>String(value).replace(/,/g, '')\<close>\<close>

definition removeCommas :: "string \<Rightarrow> string" where
  "removeCommas s = filter (\<lambda>c. c \<noteq> CHR '','') s"

text \<open>\<open>String(value)\<close> for a raw value that passed the \<open>!value\<close> test.\<close>

fun toStringRaw :: "rawval \<Rightarrow> string" where
  "toStringRaw (RStr s) = s"
| "toStringRaw RNull = ''null''"
| "toStringRaw RUndefined = ''undefined''"

text \<open>\<open>n || null\<close> for a number \<open>n\<close>.\<close>

definition numOrNull :: "jsnum \<Rightarrow> jsval" where
  "numOrNull n = (if truthyNum n then JNum n else JNull)"

definition parseNumber :: "rawval \<Rightarrow> jsval" where
  "parseNumber v =
     (if \<not> truthyRaw v then JNull
      else numOrNull (parseFloat (removeCommas (toStringRaw v))))"

definition parseId :: "rawval \<Rightarrow> jsval" where
  "parseId v =
     (if \<not> truthyRaw v then JNull
      else numOrNull (parseInt10 (toStringRaw v)))"

text \<open>\<open>record[k] || null\<close> and \<open>record[k] || ''\<close>, and \<open>a || b\<close> on raw values.\<close>

definition orNull :: "rawval \<Rightarrow> jsval" where
  "orNull v = (case v of RStr s \<Rightarrow> (if s \<noteq> [] then JStr s else JNull) | _ \<Rightarrow> JNull)"

definition orEmpty :: "rawval \<Rightarrow> jsval" where
  "orEmpty v = (case v of RStr s \<Rightarrow> JStr s | _ \<Rightarrow> JStr [])"

definition rawOr :: "rawval \<Rightarrow> rawval \<Rightarrow> rawval" where
  "rawOr a b = (if truthyRaw a then a else b)"

text \<open>\<open>index + 1\<close> as a JavaScript number.\<close>

definition indexPlus1 :: "nat \<Rightarrow> jsnum" where
  "indexPlus1 i = Fin (of_nat (i + 1))"

text \<open>\<open>v || index + 1\<close>\<close>

definition orIndex :: "jsval \<Rightarrow> nat \<Rightarrow> jsval" where
  "orIndex v i = (if truthy v then v else JNum (indexPlus1 i))"

subsection \<open>Numbers in template literals\<close>

definition digitChar :: "nat \<Rightarrow> char" where
  "digitChar d = ''0123456789'' ! d"

fun showNat :: "nat \<Rightarrow> string" where
  "showNat n = (if n < 10 then [digitChar n] else showNat (n div 10) @ [digitChar (n mod 10)])"

declare showNat.simps [simp del]

definition showInt :: "int \<Rightarrow> string" where
  "showInt k = (if k < 0 then CHR ''-'' # showNat (nat (- k)) else showNat (nat k))"

text \<open>
  \<open>String(n)\<close> for the numbers that reach a template literal: the results of \<open>parseId\<close>
  and \<open>index + 1\<close>, which are integral or infinite. The equation for \<open>Fin q\<close> is the
  engine's result on the safe integers, \<open>\<bar>q\<bar> \<le> 2^53\<close>: there \<open>q\<close> is itself a double
  and prints as its plain decimal digits. Beyond them the engine prints the double nearest
  to \<open>q\<close> (for 9007199254740993 the digits of 9007199254740992), and in exponent notation
  from \<open>10^21\<close> on; these numbers are outside the model, and the theorem on the
  synthesised keys carries the bound.
\<close>

fun toStringNum :: "jsnum \<Rightarrow> string" where
  "toStringNum NaN = ''NaN''"
| "toStringNum PosInf = ''Infinity''"
| "toStringNum NegInf = ''-Infinity''"
| "toStringNum (Fin q) = showInt \<lfloor>q\<rfloor>"

text \<open>The number held by \<open>parseId(v) || index + 1\<close>.\<close>

definition idOrIndex :: "rawval \<Rightarrow> nat \<Rightarrow> jsnum" where
  "idOrIndex v i = (case parseId v of JNum n \<Rightarrow> n | _ \<Rightarrow> indexPlus1 i)"

text \<open>
  The \<open>pkey\<close> of a detail-level row:
  \<^verbatim>\<open>parseId(record['pkey']) || `${parseId(record[idField]) || index + 1}_${parseId(record['line_id']) || index + 1}`\<close>
\<close>

definition detailPkey :: "rawRecord \<Rightarrow> string \<Rightarrow> nat \<Rightarrow> jsval" where
  "detailPkey r idField i =
     (if truthy (parseId (rget r ''pkey'')) then parseId (rget r ''pkey'')
      else JStr (toStringNum (idOrIndex (rget r idField) i) @ ''_''
                 @ toStringNum (idOrIndex (rget r ''line_id'') i)))"

subsection \<open>The per-table rows of \<open>processRecordsForTable\<close>\<close>

text \<open>
  One definition per \<open>case\<close> of the \<open>switch (table)\<close>: the object literal built for the
  raw row \<open>r\<close> at index \<open>i\<close>, as the list of its fields in source order. \<open>now\<close> is the
  reading of \<open>new Date().toISOString()\<close> taken for that row.
\<close>

definition cash_sales_row :: "string \<Rightarrow> rawRecord \<Rightarrow> nat \<Rightarrow> row" where
  "cash_sales_row now r i =
     [(''cash_sale_internal_id'', orIndex (parseId (rget r ''cash_sale_internal_id'')) i),
      (''date'', orNull (rget r ''date'')),
      (''document_number'', orEmpty (rget r ''document_number'')),
      (''po_number'', orEmpty (rget r ''po_number'')),
      (''nuorder_order_number'', orEmpty (rget r ''nuorder_order_number'')),
      (''created_from'', orEmpty (rget r ''created_from'')),
      (''name'', orEmpty (rget r ''name'')),
      (''amount'', parseNumber (rget r ''amount'')),
      (''status'', orEmpty (rget r ''status'')),
      (''customer_internal_id'', parseId (rget r ''customer_internal_id'')),
      (''sales_order_internal_id'', parseId (rget r ''sales_order_internal_id'')),
      (''partner_internal_id'', parseId (rget r ''partner_internal_id'')),
      (''timestamp'', JStr now)]"

definition credit_memos_row :: "string \<Rightarrow> rawRecord \<Rightarrow> nat \<Rightarrow> row" where
  "credit_memos_row now r i =
     [(''credit_memo_internal_id'', orIndex (parseId (rget r ''credit_memo_internal_id'')) i),
      (''date'', orNull (rget r ''date'')),
      (''document_number'', orEmpty (rget r ''document_number'')),
      (''po_number'', orEmpty (rget r ''po_number'')),
      (''nuorder_order_number'', orEmpty (rget r ''nuorder_order_number'')),
      (''created_from'', orEmpty (rget r ''created_from'')),
      (''name'', orEmpty (rget r ''name'')),
      (''amount'', parseNumber (rget r ''amount'')),
      (''status'', orEmpty (rget r ''status'')),
      (''customer_internal_id'', parseId (rget r ''customer_internal_id'')),
      (''sales_order_internal_id'', orEmpty (rget r ''sales_order_internal_id'')),
      (''partner_internal_id'', parseId (rget r ''partner_internal_id'')),
      (''timestamp'', JStr now)]"

definition customers_row :: "string \<Rightarrow> rawRecord \<Rightarrow> nat \<Rightarrow> row" where
  "customers_row now r i =
     [(''customer_internal_id'', orIndex (parseId (rget r ''customer_internal_id'')) i),
      (''number'', parseId (rget r ''number'')),
      (''company_name'', orEmpty (rget r ''company_name'')),
      (''terms'', orEmpty (rget r ''terms'')),
      (''partner'', orEmpty (rget r ''partner'')),
      (''wholesale_customer_segment'', orEmpty (rget r ''wholesale_customer_segment'')),
      (''price_level'', orEmpty (rget r ''price_level'')),
      (''account_rating'', orEmpty (rget r ''account_rating'')),
      (''email'', orEmpty (rget r ''email'')),
      (''phone'', orEmpty (rget r ''phone'')),
      (''default_billing_address'', orEmpty (rget r ''default_billing_address'')),
      (''default_shipping_address'', orEmpty (rget r ''default_shipping_address'')),
      (''tw_email_of_primary_contact'', orEmpty (rget r ''tw_email_of_primary_contact'')),
      (''tw_email_of_billing_contact'', orEmpty (rget r ''tw_email_of_billing_contact'')),
      (''tw_email_of_billing_contact_2'', orEmpty (rget r ''tw_email_of_billing_contact_2'')),
      (''primary_currency'', orEmpty (rget r ''primary_currency'')),
      (''hold_orders_for_cc_info'', orEmpty (rget r ''hold_orders_for_cc_info'')),
      (''ar_red_flag'', orEmpty (rget r ''ar_red_flag'')),
      (''partner_internal_id'', parseId (rget r ''partner_internal_id'')),
      (''timestamp'', JStr now)]"

definition invoices_row :: "string \<Rightarrow> rawRecord \<Rightarrow> nat \<Rightarrow> row" where
  "invoices_row now r i =
     [(''invoice_internal_id'', orIndex (parseId (rget r ''invoice_internal_id'')) i),
      (''date'', orNull (rget r ''date'')),
      (''document_number'', orEmpty (rget r ''document_number'')),
      (''po_number'', orEmpty (rget r ''po_number'')),
      (''nuorder_order_number'', orEmpty (rget r ''nuorder_order_number'')),
      (''created_from'', orEmpty (rget r ''created_from'')),
      (''name'', orEmpty (rget r ''name'')),
      (''amount'', parseNumber (rget r ''amount'')),
      (''status'', orEmpty (rget r ''status'')),
      (''customer_internal_id'', parseId (rget r ''customer_internal_id'')),
      (''sales_order_internal_id'', parseId (rget r ''sales_order_internal_id'')),
      (''payment_link'', orEmpty (rget r ''payment_link'')),
      (''partner_internal_id'', parseId (rget r ''partner_internal_id'')),
      (''timestamp'', JStr now),
      (''due_date'', orNull (rget r ''due_date''))]"

definition invoices_detailed_row :: "string \<Rightarrow> rawRecord \<Rightarrow> nat \<Rightarrow> row" where
  "invoices_detailed_row now r i =
     [(''invoice_internal_id'', parseId (rget r ''invoice_internal_id'')),
      (''date'', orNull (rget r ''date'')),
      (''document_number'', orEmpty (rget r ''document_number'')),
      (''po_number'', orEmpty (rget r ''po_number'')),
      (''nuorder_order_number'', orEmpty (rget r ''nuorder_order_number'')),
      (''name'', orEmpty (rget r ''name'')),
      (''status'', orEmpty (rget r ''status'')),
      (''item_name'', orEmpty (rget r ''item_name'')),
      (''design'', orEmpty (rget r ''design'')),
      (''class'', orEmpty (rget r ''class'')),
      (''upc_code'', orEmpty (rget r ''upc_code'')),
      (''quantity'', parseId (rget r ''quantity'')),
      (''amount'', parseNumber (rget r ''amount'')),
      (''customer_internal_id'', parseId (rget r ''customer_internal_id'')),
      (''sales_order_number'', orEmpty (rawOr (rget r ''sales_order_number'') (rget r ''created_from''))),
      (''sales_order_internal_id'', parseId (rget r ''sales_order_internal_id'')),
      (''pkey'', detailPkey r ''invoice_internal_id'' i),
      (''sku'', orEmpty (rget r ''sku'')),
      (''timestamp'', JStr now)]"

definition item_fulfillments_row :: "string \<Rightarrow> rawRecord \<Rightarrow> nat \<Rightarrow> row" where
  "item_fulfillments_row now r i =
     [(''item_fulfillment_internal_id'', orIndex (parseId (rget r ''item_fulfillment_internal_id'')) i),
      (''date'', orNull (rget r ''date'')),
      (''document_number'', orEmpty (rget r ''document_number'')),
      (''created_from'', orEmpty (rget r ''created_from'')),
      (''nuorder_order_number'', orEmpty (rget r ''nuorder_order_number'')),
      (''po_check_number'', orEmpty (rget r ''po_check_number'')),
      (''name'', orEmpty (rget r ''name'')),
      (''amount'', parseNumber (rget r ''amount'')),
      (''status'', orEmpty (rget r ''status'')),
      (''tracking_numbers'', orEmpty (rget r ''tracking_numbers'')),
      (''sales_order_internal_id'', parseId (rget r ''sales_order_internal_id'')),
      (''customer_internal_id'', parseId (rget r ''customer_internal_id'')),
      (''timestamp'', JStr now)]"

definition item_fulfillments_detailed_row :: "string \<Rightarrow> rawRecord \<Rightarrow> nat \<Rightarrow> row" where
  "item_fulfillments_detailed_row now r i =
     [(''item_fulfillment_internal_id'', parseId (rget r ''item_fulfillment_internal_id'')),
      (''date'', orNull (rget r ''date'')),
      (''document_number'', orEmpty (rget r ''document_number'')),
      (''name'', orEmpty (rget r ''name'')),
      (''status'', orEmpty (rget r ''status'')),
      (''item_name'', orEmpty (rget r ''item_name'')),
      (''design'', orEmpty (rget r ''design'')),
      (''class'', orEmpty (rget r ''class'')),
      (''upc_code'', orEmpty (rget r ''upc_code'')),
      (''quantity'', parseId (rget r ''quantity'')),
      (''pkey'', detailPkey r ''item_fulfillment_internal_id'' i),
      (''sku'', orEmpty (rget r ''sku'')),
      (''customer_internal_id'', parseId (rget r ''customer_internal_id'')),
      (''timestamp'', JStr now)]"

definition partners_row :: "string \<Rightarrow> rawRecord \<Rightarrow> nat \<Rightarrow> row" where
  "partners_row now r i =
     [(''partner_internal_id'', orIndex (parseId (rget r ''partner_internal_id'')) i),
      (''name'', orEmpty (rget r ''name'')),
      (''email'', orEmpty (rget r ''email'')),
      (''phone'', orEmpty (rget r ''phone'')),
      (''office_phone'', orEmpty (rget r ''office_phone'')),
      (''fax'', orEmpty (rget r ''fax'')),
      (''code'', orEmpty (rget r ''code'')),
      (''alt_email'', orEmpty (rget r ''alt_email'')),
      (''timestamp'', JStr now)]"

definition sales_orders_row :: "string \<Rightarrow> rawRecord \<Rightarrow> nat \<Rightarrow> row" where
  "sales_orders_row now r i =
     [(''sales_order_internal_id'', orIndex (parseId (rget r ''sales_order_internal_id'')) i),
      (''date'', orNull (rget r ''date'')),
      (''document_number'', orEmpty (rget r ''document_number'')),
      (''po_number'', orEmpty (rget r ''po_number'')),
      (''nuorder_order_number'', orEmpty (rget r ''nuorder_order_number'')),
      (''customer_name'', orEmpty (rawOr (rget r ''customer_name'') (rget r ''name''))),
      (''amount'', parseNumber (rget r ''amount'')),
      (''status'', orEmpty (rget r ''status'')),
      (''customer_internal_id'', parseId (rget r ''customer_internal_id'')),
      (''ship_date'', orNull (rget r ''ship_date'')),
      (''ship_date_end'', orNull (rget r ''ship_date_end'')),
      (''partner_internal_id'', parseId (rget r ''partner_internal_id'')),
      (''timestamp'', JStr now)]"

definition sales_orders_detailed_row :: "string \<Rightarrow> rawRecord \<Rightarrow> nat \<Rightarrow> row" where
  "sales_orders_detailed_row now r i =
     [(''sales_order_internal_id'', parseId (rget r ''sales_order_internal_id'')),
      (''date'', orNull (rget r ''date'')),
      (''document_number'', orEmpty (rget r ''document_number'')),
      (''po_number'', orEmpty (rget r ''po_number'')),
      (''nuorder_order_number'', orEmpty (rget r ''nuorder_order_number'')),
      (''customer_name'', orEmpty (rawOr (rget r ''customer_name'') (rget r ''name''))),
      (''status'', orEmpty (rget r ''status'')),
      (''item_name'', orEmpty (rget r ''item_name'')),
      (''design'', orEmpty (rget r ''design'')),
      (''class'', orEmpty (rget r ''class'')),
      (''upc_code'', orEmpty (rget r ''upc_code'')),
      (''quantity'', parseId (rget r ''quantity'')),
      (''amount'', parseNumber (rget r ''amount'')),
      (''line_id'', parseId (rget r ''line_id'')),
      (''customer_internal_id'', parseId (rget r ''customer_internal_id'')),
      (''pkey'', detailPkey r ''sales_order_internal_id'' i),
      (''sku'', orEmpty (rget r ''sku'')),
      (''timestamp'', JStr now)]"

definition forecast_row :: "rawRecord \<Rightarrow> nat \<Rightarrow> row" where
  "forecast_row r i =
     [(''month'', orNull (rget r ''month'')),
      (''partner'', orEmpty (rawOr (rget r ''sales_rep'') (rget r ''partner''))),
      (''forecasted_amount'', parseNumber (rget r ''forecasted_amount'')),
      (''partner_internal_id'', parseId (rawOr (rget r ''partner_internal_id'') (rget r ''partner_id''))),
      (''pkey'', orIndex (parseId (rget r ''pkey'')) i)]"

subsection \<open>Generic processing for tables without a specific mapping\<close>

text \<open>\<open>s.includesStr(sub)\<close>\<close>

primrec includesStr :: "string \<Rightarrow> string \<Rightarrow> bool" where
  "includesStr [] sub = (sub = [])"
| "includesStr (c # cs) sub = (take (length sub) (c # cs) = sub \<or> includesStr cs sub)"

text \<open>
  The assignment \<open>obj[k] = v\<close> on a row under construction: an existing field keeps its
  place. An assignment to \<open>__proto__\<close> reaches the inherited setter and creates no field.
\<close>

fun setField :: "row \<Rightarrow> string \<Rightarrow> jsval \<Rightarrow> row" where
  "setField [] k v = [(k, v)]"
| "setField ((k', v') # r) k v = (if k' = k then (k, v) # r else (k', v') # setField r k v)"

definition assign :: "row \<Rightarrow> string \<Rightarrow> jsval \<Rightarrow> row" where
  "assign p k v = (if k = ''__proto__'' then p else setField p k v)"

text \<open>One step of the \<open>Object.keys(record).forEach\<close> loop.\<close>

definition genericField :: "rawRecord \<Rightarrow> row \<Rightarrow> string \<Rightarrow> row" where
  "genericField r p k =
     (let v = rget r k in
      if includesStr k ''internal_id'' \<or> includesStr k ''_id'' \<or> k = ''id'' then assign p k (parseId v)
      else if includesStr k ''amount'' \<or> includesStr k ''price'' \<or> includesStr k ''total''
        then assign p k (parseNumber v)
      else if includesStr k ''date'' then assign p k (orNull v)
      else assign p k (orEmpty v))"

definition generic_row :: "string \<Rightarrow> rawRecord \<Rightarrow> nat \<Rightarrow> row" where
  "generic_row now r i =
     (let p = foldl (genericField r) [] (map fst r);
          p' = (if \<not> truthy (getField p ''id'')
                   \<and> \<not> list_ex (\<lambda>k. includesStr k ''internal_id'') (map fst p)
                then assign p ''id'' (JNum (indexPlus1 i)) else p)
      in assign p' ''timestamp'' (JStr now))"

subsection \<open>\<open>processRecordsForTable\<close>\<close>

text \<open>\<open>xs.map((record, index) => f(record, index))\<close>\<close>

definition mapIndexed :: "('a \<Rightarrow> nat \<Rightarrow> 'b) \<Rightarrow> 'a list \<Rightarrow> 'b list" where
  "mapIndexed f xs = map (\<lambda>(i, x). f x i) (enumerate 0 xs)"

text \<open>
  \<open>clock i\<close> is the wall-clock reading taken while row \<open>i\<close> is built. Log output is not
  part of the model.
\<close>

definition processRecordsForTable :: "(nat \<Rightarrow> string) \<Rightarrow> string \<Rightarrow> rawRecord list \<Rightarrow> row list" where
  "processRecordsForTable clock table rawRecords =
     (if rawRecords = [] then []
      else if table = ''cash_sales'' then mapIndexed (\<lambda>r i. cash_sales_row (clock i) r i) rawRecords
      else if table = ''credit_memos'' then mapIndexed (\<lambda>r i. credit_memos_row (clock i) r i) rawRecords
      else if table = ''customers'' then mapIndexed (\<lambda>r i. customers_row (clock i) r i) rawRecords
      else if table = ''invoices'' then mapIndexed (\<lambda>r i. invoices_row (clock i) r i) rawRecords
      else if table = ''invoices_detailed''
        then mapIndexed (\<lambda>r i. invoices_detailed_row (clock i) r i) rawRecords
      else if table = ''item_fulfillments''
        then mapIndexed (\<lambda>r i. item_fulfillments_row (clock i) r i) rawRecords
      else if table = ''item_fulfillments_detailed''
        then mapIndexed (\<lambda>r i. item_fulfillments_detailed_row (clock i) r i) rawRecords
      else if table = ''partners'' then mapIndexed (\<lambda>r i. partners_row (clock i) r i) rawRecords
      else if table = ''sales_orders'' then mapIndexed (\<lambda>r i. sales_orders_row (clock i) r i) rawRecords
      else if table = ''sales_orders_detailed''
        then mapIndexed (\<lambda>r i. sales_orders_detailed_row (clock i) r i) rawRecords
      else if table = ''forecast'' then mapIndexed forecast_row rawRecords
      else mapIndexed (\<lambda>r i. generic_row (clock i) r i) rawRecords)"

section \<open>Conflict key resolver\<close>

text \<open>
  \<open>tableIdMap\<close> is an object literal, so \<open>tableIdMap[table]\<close> finds the eleven own
  properties and, for any other name, whatever \<open>Object.prototype\<close> provides under it.
\<close>

definition tableIdMap :: "(string \<times> string) list" where
  "tableIdMap =
     [(''cash_sales'', ''cash_sale_internal_id''),
      (''credit_memos'', ''credit_memo_internal_id''),
      (''customers'', ''customer_internal_id''),
      (''invoices'', ''invoice_internal_id''),
      (''invoices_detailed'', ''invoice_internal_id''),
      (''item_fulfillments'', ''item_fulfillment_internal_id''),
      (''item_fulfillments_detailed'', ''item_fulfillment_internal_id''),
      (''partners'', ''partner_internal_id''),
      (''sales_orders'', ''sales_order_internal_id''),
      (''sales_orders_detailed'', ''sales_order_internal_id''),
      (''forecast'', ''pkey'')]"

definition objectPrototypeMembers :: "string list" where
  "objectPrototypeMembers =
     [''constructor'', ''hasOwnProperty'', ''isPrototypeOf'', ''propertyIsEnumerable'',
      ''toLocaleString'', ''toString'', ''valueOf'', ''__proto__'',
      ''__defineGetter__'', ''__defineSetter__'', ''__lookupGetter__'', ''__lookupSetter__'']"

text \<open>\<open>tableIdMap[table]\<close>\<close>

definition tableIdMapLookup :: "string \<Rightarrow> jsval" where
  "tableIdMapLookup table =
     (case map_of tableIdMap table of
        Some c \<Rightarrow> JStr c
      | None \<Rightarrow> (if table \<in> set objectPrototypeMembers then JBuiltin table else JUndefined))"

text \<open>\<open>tableIdMap[table] || 'id'\<close>\<close>

definition getTableIdColumn :: "string \<Rightarrow> jsval" where
  "getTableIdColumn table =
     (if truthy (tableIdMapLookup table) then tableIdMapLookup table else JStr ''id'')"

definition isDetailTable :: "string \<Rightarrow> bool" where
  "isDetailTable table =
     (table = ''sales_orders_detailed'' \<or> table = ''invoices_detailed''
      \<or> table = ''item_fulfillments_detailed'')"

text \<open>The conflict key chosen in \<open>syncMapping\<close> (the bulk path).\<close>

definition conflictKeyBulk :: "string \<Rightarrow> jsval" where
  "conflictKeyBulk table =
     (let conflictKey = getTableIdColumn table
      in if isDetailTable table then JStr ''pkey'' else conflictKey)"

text \<open>The conflict key chosen in \<open>syncMappingWithPagination\<close> (the paginated path).\<close>

definition conflictKeyPaginated :: "string \<Rightarrow> jsval" where
  "conflictKeyPaginated table =
     (let conflictKey = getTableIdColumn table
      in if isDetailTable table then JStr ''pkey'' else conflictKey)"

section \<open>Errors\<close>

text \<open>Every failure in the engine is a \<open>new Error(message)\<close>.\<close>

datatype jserror = Error (message: string)

section \<open>Destination writer (\<open>supabase/client.js\<close>)\<close>

text \<open>
  The store client belongs to an external library. One call
  \<open>client.from(table).upsert(chunk, {onConflict, ignoreDuplicates: false}).select()\<close>
  either rejects with an error or resolves to \<open>{data, error}\<close>; it may change the world
  \<open>'w\<close> (the store and whatever else lies outside the process).
\<close>

record storeError =
  errMessage :: string
  errDetails :: "string option"

datatype storeReply = Rejected string | Resolved "row list option" "storeError option"

type_synonym 'w storeUpsert = "string \<Rightarrow> row list \<Rightarrow> jsval \<Rightarrow> 'w \<Rightarrow> storeReply \<times> 'w"

definition isAlnum :: "char \<Rightarrow> bool" where
  "isAlnum c =
     (let n = (of_char c :: nat)
      in (97 \<le> n \<and> n \<le> 122) \<or> (65 \<le> n \<and> n \<le> 90) \<or> (48 \<le> n \<and> n \<le> 57))"

text \<open>\<open>/^[a-zA-Z0-9_-]+$/.test(tableName)\<close>, after the test that the name is a non-empty string.\<close>

definition isValidTableName :: "string \<Rightarrow> bool" where
  "isValidTableName tableName =
     (tableName \<noteq> [] \<and> list_all (\<lambda>c. isAlnum c \<or> c = CHR ''_'' \<or> c = CHR ''-'') tableName)"

text \<open>\<open>typeof onConflict === 'string' && /^[a-zA-Z0-9_\- ]+$/.test(onConflict)\<close>\<close>

definition isValidConflictColumn :: "jsval \<Rightarrow> bool" where
  "isValidConflictColumn onConflict =
     (case onConflict of
        JStr s \<Rightarrow> s \<noteq> [] \<and> list_all (\<lambda>c. isAlnum c \<or> c = CHR ''_'' \<or> c = CHR ''-'' \<or> c = CHR '' '') s
      | _ \<Rightarrow> False)"

definition chunkSize :: nat where
  "chunkSize = 500"

text \<open>\<open>records.slice(i, j)\<close> for \<open>0 \<le> i \<le> j\<close>\<close>

definition slice :: "'a list \<Rightarrow> nat \<Rightarrow> nat \<Rightarrow> 'a list" where
  "slice xs i j = take (j - i) (drop i xs)"

text \<open>
  \<^verbatim>\<open>for (let i = 0; i < records.length; i += chunkSize) chunks.push(records.slice(i, i + chunkSize))\<close>
  from the loop variable \<open>i\<close> on.
\<close>

function chunkLoop :: "'a list \<Rightarrow> nat \<Rightarrow> 'a list list" where
  "chunkLoop records i =
     (if i < length records
      then slice records i (i + chunkSize) # chunkLoop records (i + chunkSize)
      else [])"
  by pat_completeness auto
termination
  by (relation "measure (\<lambda>(records, i). length records - i)") (auto simp: chunkSize_def)

declare chunkLoop.simps [simp del]

text \<open>\<open>results.push(...(data || []))\<close>\<close>

definition dataOrEmpty :: "row list option \<Rightarrow> row list" where
  "dataOrEmpty d = (case d of None \<Rightarrow> [] | Some rows \<Rightarrow> rows)"

text \<open>
  The loop \<open>for (const chunk of chunks)\<close>. \<open>fmt\<close> builds the message of the error raised
  for a reply that carries an \<open>error\<close>; a rejected call raises the store's own error.
\<close>

fun upsertChunks ::
  "(storeError \<Rightarrow> string) \<Rightarrow> 'w storeUpsert \<Rightarrow> string \<Rightarrow> jsval \<Rightarrow> row list list \<Rightarrow> row list \<Rightarrow> 'w
   \<Rightarrow> (jserror + row list) \<times> 'w" where
  "upsertChunks fmt store table onConflict [] results w = (Inr results, w)"
| "upsertChunks fmt store table onConflict (chunk # rest) results w =
     (case store table chunk onConflict w of
        (Rejected m, w') \<Rightarrow> (Inl (Error m), w')
      | (Resolved d (Some e), w') \<Rightarrow> (Inl (Error (fmt e)), w')
      | (Resolved d None, w') \<Rightarrow>
          upsertChunks fmt store table onConflict rest (results @ dataOrEmpty d) w')"

text \<open>The value \<open>upsert\<close> resolves to: \<open>{count: 0}\<close> or \<open>{success: true, recordsProcessed, resultsReturned}\<close>.\<close>

datatype upsertResult = NoRecords | Upserted (recordsProcessed: nat) (resultsReturned: nat)

text \<open>\<^verbatim>\<open>`Supabase upsert error: ${error.message}`\<close>\<close>

definition upsertErrorMessage :: "storeError \<Rightarrow> string" where
  "upsertErrorMessage e = ''Supabase upsert error: '' @ errMessage e"

text \<open>\<^verbatim>\<open>`Failed to upsert to table ${table}: ${error.message}`\<close>\<close>

definition upsertFailure :: "string \<Rightarrow> jserror \<Rightarrow> jserror" where
  "upsertFailure table e = Error (''Failed to upsert to table '' @ table @ '': '' @ message e)"

text \<open>
  \<open>upsert(table, records, onConflict = 'id')\<close> of \<open>lambda-package/src/supabase/client.js\<close>.
  \<open>records\<close> is \<open>None\<close> for an argument that is not an array; an \<open>onConflict\<close> of
  \<open>undefined\<close> takes the default. The warnings about missing conflict keys only print.
\<close>

definition upsert ::
  "'w storeUpsert \<Rightarrow> string \<Rightarrow> row list option \<Rightarrow> jsval \<Rightarrow> 'w \<Rightarrow> (jserror + upsertResult) \<times> 'w" where
  "upsert store table records onConflictArg w =
     (let onConflict = (if onConflictArg = JUndefined then JStr ''id'' else onConflictArg) in
      if \<not> isValidTableName table then (Inl (Error ''Invalid table name format''), w)
      else case records of
        None \<Rightarrow> (Inl (Error ''Records must be an array''), w)
      | Some recs \<Rightarrow>
          if recs = [] then (Inr NoRecords, w)
          else if truthy onConflict \<and> \<not> isValidConflictColumn onConflict
            then (Inl (Error ''Invalid conflict column format''), w)
          else
            (case upsertChunks upsertErrorMessage store table onConflict (chunkLoop recs 0) [] w of
               (Inl e, w') \<Rightarrow> (Inl (upsertFailure table e), w')
             | (Inr results, w') \<Rightarrow> (Inr (Upserted (length recs) (length results)), w')))"

text \<open>
  The older copy, \<open>src/supabase/client.js\<close>: no validation of the names, an error for an
  empty list, and the store's \<open>details\<close> in the message.
  \<^verbatim>\<open>`Supabase upsert error: ${error.message} (details: ${error.details || 'none'})`\<close>
\<close>

definition upsertErrorMessageLegacy :: "storeError \<Rightarrow> string" where
  "upsertErrorMessageLegacy e =
     ''Supabase upsert error: '' @ errMessage e @ '' (details: ''
       @ (case errDetails e of None \<Rightarrow> ''none'' | Some d \<Rightarrow> (if d = [] then ''none'' else d))
       @ '')''"

definition upsertLegacy ::
  "'w storeUpsert \<Rightarrow> string \<Rightarrow> row list option \<Rightarrow> jsval \<Rightarrow> 'w \<Rightarrow> (jserror + upsertResult) \<times> 'w" where
  "upsertLegacy store table records onConflictArg w =
     (let onConflict = (if onConflictArg = JUndefined then JStr ''id'' else onConflictArg) in
      case records of
        None \<Rightarrow> (Inl (Error ''No records provided for upsert''), w)
      | Some recs \<Rightarrow>
          if recs = [] then (Inl (Error ''No records provided for upsert''), w)
          else
            (case upsertChunks upsertErrorMessageLegacy store table onConflict (chunkLoop recs 0) [] w of
               (Inl e, w') \<Rightarrow> (Inl (upsertFailure table e), w')
             | (Inr results, w') \<Rightarrow> (Inr (Upserted (length recs) (length results)), w')))"

section \<open>Source reader\<close>

subsection \<open>The client \<open>src/netsuite/client.js\<close>\<close>

text \<open>
  \<open>fetchSavedSearch(searchId, page)\<close> performs one signed HTTP request and returns the
  response body or throws; it stands here as a parameter. A body is a string that
  \<open>JSON.parse\<close> rejects, a value without a \<open>data\<close> array, or an object with a \<open>data\<close>
  array and a \<open>hasMore\<close> flag (read for its truthiness).
\<close>

datatype body = Unparsable string | NoDataArray | Page "rawRecord list" bool

type_synonym 'w fetchSavedSearch = "string \<Rightarrow> nat \<Rightarrow> 'w \<Rightarrow> (jserror + body) \<times> 'w"

record parsedResponse =
  pdata :: "rawRecord list"
  hasMore :: bool

definition parseNetSuiteResponse :: "body \<Rightarrow> jserror + parsedResponse" where
  "parseNetSuiteResponse response =
     (case response of
        Unparsable m \<Rightarrow> Inl (Error (''Failed to parse NetSuite response: '' @ m))
      | NoDataArray \<Rightarrow> Inl (Error ''Invalid response format from NetSuite API: missing data array'')
      | Page d h \<Rightarrow> Inr \<lparr>pdata = d, hasMore = h\<rparr>)"

text \<open>
  The loop of \<open>fetchAllSavedSearchPages\<close>, entered with \<open>hasMore = true\<close>: one request for
  \<open>page\<close>, the page's rows appended to \<open>allResults\<close>, and the next page while the reply
  says \<open>hasMore\<close>. A remote that always answers \<open>hasMore\<close> keeps the loop running: the
  result is \<open>None\<close>.
\<close>

partial_function (option) fetchAllLoop ::
  "'w fetchSavedSearch \<Rightarrow> string \<Rightarrow> nat \<Rightarrow> rawRecord list \<Rightarrow> 'w
   \<Rightarrow> ((jserror + rawRecord list) \<times> 'w) option" where
  "fetchAllLoop fetch searchId page allResults w =
     (case fetch searchId page w of
        (Inl e, w') \<Rightarrow> Some (Inl e, w')
      | (Inr rawResponse, w') \<Rightarrow>
          (case parseNetSuiteResponse rawResponse of
             Inl e \<Rightarrow> Some (Inl e, w')
           | Inr parsed \<Rightarrow>
               if hasMore parsed
               then fetchAllLoop fetch searchId (page + 1) (allResults @ pdata parsed) w'
               else Some (Inr (allResults @ pdata parsed), w')))"

definition fetchAllSavedSearchPages ::
  "'w fetchSavedSearch \<Rightarrow> string \<Rightarrow> 'w \<Rightarrow> ((jserror + rawRecord list) \<times> 'w) option" where
  "fetchAllSavedSearchPages fetch searchId w = fetchAllLoop fetch searchId 0 [] w"

subsection \<open>The client of the lambda package\<close>

text \<open>
  \<open>lambda-package/src/sync.js\<close> loads its own copy of the client. Its
  \<open>fetchSavedSearch(searchId, page)\<close> again performs one signed HTTP request and returns
  the response body or throws, and stands here as a parameter. Its
  \<open>parseNetSuiteResponse\<close> tells more kinds of body apart: a string that \<open>JSON.parse\<close>
  rejects or that is longer than 50,000,000 characters; JSON \<open>null\<close>; a value that is no
  object; an object without a truthy \<open>data\<close>; an object whose \<open>data\<close> is no array; and
  an object with a \<open>data\<close> array and a \<open>hasMore\<close> flag.
\<close>

datatype lambdaBody =
  BadJson | JsonNull | NotAnObject | NoDataProperty | DataNotArray | DataPage "rawRecord list" bool

type_synonym 'w fetchSavedSearchLambda =
  "string \<Rightarrow> nat \<Rightarrow> 'w \<Rightarrow> (jserror + lambdaBody) \<times> 'w"

text \<open>
  For JSON \<open>null\<close> the test \<open>typeof parsedResponse !== 'object'\<close> passes and reading
  \<open>parsedResponse.data\<close> throws a \<open>TypeError\<close>.
\<close>

definition parseNetSuiteResponseLambda :: "lambdaBody \<Rightarrow> jserror + parsedResponse" where
  "parseNetSuiteResponseLambda response =
     (case response of
        BadJson \<Rightarrow> Inl (Error ''Invalid JSON response from NetSuite'')
      | JsonNull \<Rightarrow> Inl (Error ''Cannot read properties of null (reading 'data')'')
      | NotAnObject \<Rightarrow> Inl (Error ''Invalid response format: not an object'')
      | NoDataProperty \<Rightarrow> Inl (Error ''Invalid response format: missing data property'')
      | DataNotArray \<Rightarrow> Inl (Error ''Invalid response format: data is not an array'')
      | DataPage d h \<Rightarrow> Inr \<lparr>pdata = d, hasMore = h\<rparr>)"

text \<open>
  The \<open>catch\<close> of \<open>fetchSavedSearchPage\<close>: three kinds of error are thrown on as they
  are, any other one is replaced.
\<close>

definition sanitizeFetchError :: "string \<Rightarrow> jserror \<Rightarrow> jserror" where
  "sanitizeFetchError searchId e =
     (if includesStr (message e) ''Invalid'' then e
      else if includesStr (message e) ''Authentication failed'' then e
      else if includesStr (message e) ''NetSuite resource not found'' then e
      else Error (''Failed to fetch data from NetSuite saved search '' @ searchId))"

text \<open>
  \<open>fetchSavedSearchPage(searchId, pageIndex)\<close>: an empty \<open>searchId\<close> is refused; the
  request is for the page \<open>Math.max(0, pageIndex - 1)\<close>; every error passes through the
  \<open>catch\<close> above.
\<close>

definition fetchSavedSearchPage ::
  "'w fetchSavedSearchLambda \<Rightarrow> string \<Rightarrow> nat \<Rightarrow> 'w \<Rightarrow> (jserror + parsedResponse) \<times> 'w" where
  "fetchSavedSearchPage fetch searchId pageIndex w =
     (if searchId = [] then (Inl (sanitizeFetchError searchId (Error ''Invalid searchId parameter'')), w)
      else case fetch searchId (pageIndex - 1) w of
        (Inl e, w') \<Rightarrow> (Inl (sanitizeFetchError searchId e), w')
      | (Inr rawResponse, w') \<Rightarrow>
          (case parseNetSuiteResponseLambda rawResponse of
             Inl e \<Rightarrow> (Inl (sanitizeFetchError searchId e), w')
           | Inr parsed \<Rightarrow> (Inr parsed, w')))"

text \<open>
  \<open>fetchAllSavedSearchPages\<close> of this client: the same loop as in the other copy, over
  this client's \<open>fetchSavedSearch\<close> and \<open>parseNetSuiteResponse\<close>.
\<close>

partial_function (option) fetchAllLoopLambda ::
  "'w fetchSavedSearchLambda \<Rightarrow> string \<Rightarrow> nat \<Rightarrow> rawRecord list \<Rightarrow> 'w
   \<Rightarrow> ((jserror + rawRecord list) \<times> 'w) option" where
  "fetchAllLoopLambda fetch searchId page allResults w =
     (case fetch searchId page w of
        (Inl e, w') \<Rightarrow> Some (Inl e, w')
      | (Inr rawResponse, w') \<Rightarrow>
          (case parseNetSuiteResponseLambda rawResponse of
             Inl e \<Rightarrow> Some (Inl e, w')
           | Inr parsed \<Rightarrow>
               if hasMore parsed
               then fetchAllLoopLambda fetch searchId (page + 1) (allResults @ pdata parsed) w'
               else Some (Inr (allResults @ pdata parsed), w')))"

definition fetchAllSavedSearchPagesLambda ::
  "'w fetchSavedSearchLambda \<Rightarrow> string \<Rightarrow> 'w \<Rightarrow> ((jserror + rawRecord list) \<times> 'w) option" where
  "fetchAllSavedSearchPagesLambda fetch searchId w = fetchAllLoopLambda fetch searchId 0 [] w"

section \<open>Sync orchestrator (\<open>lambda-package/src/sync.js\<close>)\<close>

text \<open>One entry of the mapping catalog, \<open>config.mappings\<close>.\<close>

record mapping =
  searchId :: string
  table :: string
  name :: string
  mappingType :: string
  mappingMethod :: string

record errorEntry =
  entryMessage :: string
  entryError :: string
  entryTimestamp :: string

record syncStats =
  startTime :: "string option"
  endTime :: "string option"
  totalMappings :: nat
  successfulSyncs :: nat
  failedSyncs :: nat
  errors :: "errorEntry list"

text \<open>The statistics that the constructor of \<open>SyncManager\<close> sets up.\<close>

definition newSyncStats :: syncStats where
  "newSyncStats =
     \<lparr>startTime = None, endTime = None, totalMappings = 0, successfulSyncs = 0,
      failedSyncs = 0, errors = []\<rparr>"

text \<open>
  \<open>logError(message, error)\<close> with the clock reading \<open>ts\<close>: one entry is pushed onto
  \<open>syncStats.errors\<close>.
\<close>

definition logError :: "string \<Rightarrow> jserror \<Rightarrow> string \<Rightarrow> syncStats \<Rightarrow> syncStats" where
  "logError msg e ts stats =
     stats\<lparr>errors := errors stats
        @ [\<lparr>entryMessage = msg, entryError = message e, entryTimestamp = ts\<rparr>]\<rparr>"

text \<open>
  The count query \<open>client.from(table).select('*', {count: 'exact', head: true})\<close> of the
  store client: it rejects, or resolves to \<open>{count, error}\<close>.
\<close>

datatype countReply = CountRejected string | CountResolved "nat option" "string option"

type_synonym 'w storeCount = "string \<Rightarrow> 'w \<Rightarrow> countReply \<times> 'w"

definition getRecordCount :: "'w storeCount \<Rightarrow> string \<Rightarrow> 'w \<Rightarrow> (jserror + nat option) \<times> 'w" where
  "getRecordCount count tbl w =
     (if \<not> isValidTableName tbl then (Inl (Error ''Invalid table name format''), w)
      else case count tbl w of
        (CountRejected m, w') \<Rightarrow> (Inl (Error (''Failed to get record count: '' @ m)), w')
      | (CountResolved c (Some m), w') \<Rightarrow> (Inl (Error (''Failed to get record count: '' @ m)), w')
      | (CountResolved c None, w') \<Rightarrow> (Inr c, w'))"

text \<open>
  What lies outside the process: the remote search endpoint, the store, the two connection
  checks of the clients (\<open>netsuiteClient.validateCredentials()\<close> throws or returns;
  \<open>supabaseClient.validateConnection(mapping)\<close> throws or returns a flag), and the clock
  (\<open>now\<close> for the statistics, \<open>rowClock\<close> for the row built at an index).
\<close>

record 'w env =
  fetchSavedSearch :: "'w fetchSavedSearchLambda"
  storeUpsert :: "'w storeUpsert"
  storeCount :: "'w storeCount"
  validateCredentials :: "'w \<Rightarrow> jserror option \<times> 'w"
  validateConnection :: "mapping \<Rightarrow> 'w \<Rightarrow> (jserror + bool) \<times> 'w"
  now :: "'w \<Rightarrow> string"
  rowClock :: "'w \<Rightarrow> nat \<Rightarrow> string"

definition PAGINATED_TABLES :: "string list" where
  "PAGINATED_TABLES = [''invoices_detailed'', ''item_fulfillments_detailed'', ''sales_orders_detailed'']"

definition requiresPagination :: "string \<Rightarrow> bool" where
  "requiresPagination tbl = (tbl \<in> set PAGINATED_TABLES)"

text \<open>
  \<open>validateConnections()\<close>: \<open>true\<close>, or \<open>false\<close> with the error logged. The flag that
  \<open>validateConnection\<close> returns is not looked at.
\<close>

definition validateConnections ::
  "'w env \<Rightarrow> mapping list \<Rightarrow> syncStats \<Rightarrow> 'w \<Rightarrow> bool \<times> syncStats \<times> 'w" where
  "validateConnections env mappings stats w =
     (case validateCredentials env w of
        (Some e, w1) \<Rightarrow> (False, logError ''Connection validation failed'' e (now env w1) stats, w1)
      | (None, w1) \<Rightarrow>
          (case mappings of
             [] \<Rightarrow> (False, logError ''Connection validation failed''
                       (Error ''No mappings found for validation'') (now env w1) stats, w1)
           | firstMapping # _ \<Rightarrow>
               (case validateConnection env firstMapping w1 of
                  (Inl e, w2) \<Rightarrow>
                    (False, logError ''Connection validation failed'' e (now env w2) stats, w2)
                | (Inr _, w2) \<Rightarrow> (True, stats, w2))))"

text \<open>
  The \<open>while (hasMorePages)\<close> loop of \<open>syncMappingWithPagination\<close>, entered with the 1-based
  \<open>pageIndex\<close> and the running total: each page is fetched, processed and written on its
  own. \<open>None\<close> when the remote never ends the sequence.
\<close>

partial_function (option) paginationLoop ::
  "'w env \<Rightarrow> mapping \<Rightarrow> nat \<Rightarrow> nat \<Rightarrow> 'w \<Rightarrow> ((jserror + nat) \<times> 'w) option" where
  "paginationLoop env m pageIndex totalRecordsProcessed w =
     (case fetchSavedSearchPage (fetchSavedSearch env) (searchId m) pageIndex w of
        (Inl e, w1) \<Rightarrow> Some (Inl e, w1)
      | (Inr page, w1) \<Rightarrow>
          if pdata page \<noteq> [] then
            (case upsert (storeUpsert env) (table m)
                    (Some (processRecordsForTable (rowClock env w1) (table m) (pdata page)))
                    (conflictKeyPaginated (table m)) w1 of
               (Inl e, w2) \<Rightarrow> Some (Inl e, w2)
             | (Inr result, w2) \<Rightarrow>
                 if hasMore page
                 then paginationLoop env m (pageIndex + 1)
                        (totalRecordsProcessed
                          + length (processRecordsForTable (rowClock env w1) (table m) (pdata page))) w2
                 else Some (Inr (totalRecordsProcessed
                          + length (processRecordsForTable (rowClock env w1) (table m) (pdata page))), w2))
          else if hasMore page
            then paginationLoop env m (pageIndex + 1) totalRecordsProcessed w1
            else Some (Inr totalRecordsProcessed, w1))"

text \<open>
  \<open>syncMappingWithPagination(mapping)\<close>: the whole body is inside \<open>try\<close>; the \<open>catch\<close>
  logs the error and returns \<open>false\<close>.
\<close>

definition paginationFailure :: "mapping \<Rightarrow> string" where
  "paginationFailure m = ''Failed to sync '' @ name m @ '' to '' @ table m @ '' during pagination''"

definition syncMappingWithPagination ::
  "'w env \<Rightarrow> mapping \<Rightarrow> syncStats \<Rightarrow> 'w \<Rightarrow> (bool \<times> syncStats \<times> 'w) option" where
  "syncMappingWithPagination env m stats w =
     (case getRecordCount (storeCount env) (table m) w of
        (Inl e, w1) \<Rightarrow> Some (False, logError (paginationFailure m) e (now env w1) stats, w1)
      | (Inr beforeCount, w1) \<Rightarrow>
          (case paginationLoop env m 1 0 w1 of
             None \<Rightarrow> None
           | Some (Inl e, w2) \<Rightarrow>
               Some (False, logError (paginationFailure m) e (now env w2) stats, w2)
           | Some (Inr totalRecords, w2) \<Rightarrow>
               (case getRecordCount (storeCount env) (table m) w2 of
                  (Inl e, w3) \<Rightarrow>
                    Some (False, logError (paginationFailure m) e (now env w3) stats, w3)
                | (Inr afterCount, w3) \<Rightarrow> Some (True, stats, w3))))"

text \<open>
  The bulk path of \<open>syncMapping\<close>, up to its \<open>catch\<close>: the value returned, or the error
  thrown.
\<close>

definition syncMappingBulk ::
  "'w env \<Rightarrow> mapping \<Rightarrow> 'w \<Rightarrow> ((jserror + bool) \<times> 'w) option" where
  "syncMappingBulk env m w =
     (case getRecordCount (storeCount env) (table m) w of
        (Inl e, w1) \<Rightarrow> Some (Inl e, w1)
      | (Inr beforeCount, w1) \<Rightarrow>
          (case fetchAllSavedSearchPagesLambda (fetchSavedSearch env) (searchId m) w1 of
             None \<Rightarrow> None
           | Some (Inl e, w2) \<Rightarrow> Some (Inl e, w2)
           | Some (Inr rawRecords, w2) \<Rightarrow>
               if rawRecords = [] then Some (Inr True, w2)
               else if processRecordsForTable (rowClock env w2) (table m) rawRecords \<noteq> [] then
                 (case upsert (storeUpsert env) (table m)
                         (Some (processRecordsForTable (rowClock env w2) (table m) rawRecords))
                         (conflictKeyBulk (table m)) w2 of
                    (Inl e, w3) \<Rightarrow> Some (Inl e, w3)
                  | (Inr result, w3) \<Rightarrow>
                      (case getRecordCount (storeCount env) (table m) w3 of
                         (Inl e, w4) \<Rightarrow> Some (Inl e, w4)
                       | (Inr afterCount, w4) \<Rightarrow> Some (Inr True, w4)))
               else Some (Inr True, w2)))"

definition syncFailure :: "mapping \<Rightarrow> string" where
  "syncFailure m = ''Failed to sync '' @ name m @ '' to '' @ table m"

text \<open>\<open>syncMapping(mapping)\<close>: success flag and statistics; no error leaves it.\<close>

definition syncMapping ::
  "'w env \<Rightarrow> mapping \<Rightarrow> syncStats \<Rightarrow> 'w \<Rightarrow> (bool \<times> syncStats \<times> 'w) option" where
  "syncMapping env m stats w =
     (if requiresPagination (table m) then syncMappingWithPagination env m stats w
      else case syncMappingBulk env m w of
        None \<Rightarrow> None
      | Some (Inl e, w') \<Rightarrow> Some (False, logError (syncFailure m) e (now env w') stats, w')
      | Some (Inr success, w') \<Rightarrow> Some (success, stats, w'))"

text \<open>The loop \<open>for (const mapping of config.mappings)\<close> of \<open>runSync\<close>.\<close>

fun syncLoop ::
  "'w env \<Rightarrow> mapping list \<Rightarrow> syncStats \<Rightarrow> 'w \<Rightarrow> (syncStats \<times> 'w) option" where
  "syncLoop env [] stats w = Some (stats, w)"
| "syncLoop env (m # rest) stats w =
     (case syncMapping env m stats w of
        None \<Rightarrow> None
      | Some (success, stats', w') \<Rightarrow>
          if success
          then syncLoop env rest (stats'\<lparr>successfulSyncs := successfulSyncs stats' + 1\<rparr>) w'
          else syncLoop env rest (stats'\<lparr>failedSyncs := failedSyncs stats' + 1\<rparr>) w')"

text \<open>
  \<open>runSync()\<close> on the manager whose statistics are \<open>stats\<close>, with the catalog \<open>mappings\<close>:
  the statistics it returns.
\<close>

definition runSync ::
  "'w env \<Rightarrow> mapping list \<Rightarrow> syncStats \<Rightarrow> 'w \<Rightarrow> (syncStats \<times> 'w) option" where
  "runSync env mappings stats w =
     (case validateConnections env mappings
             (stats\<lparr>startTime := Some (now env w), totalMappings := length mappings\<rparr>) w of
        (False, stats1, w1) \<Rightarrow> Some (stats1, w1)
      | (True, stats1, w1) \<Rightarrow>
          (case syncLoop env mappings stats1 w1 of
             None \<Rightarrow> None
           | Some (stats2, w2) \<Rightarrow> Some (stats2\<lparr>endTime := Some (now env w2)\<rparr>, w2)))"

section \<open>Sample data\<close>

definition sampleClock :: "nat \<Rightarrow> string" where
  "sampleClock i = ''2024-05-01T06:00:00.000Z''"

text \<open>Five raw rows of a detail table; only the last one carries its parent invoice id.\<close>

definition sampleDetailRows :: "rawRecord list" where
  "sampleDetailRows = [[], [], [], [], [(''invoice_internal_id'', RStr ''55'')]]"

definition sampleCustomerRows :: "rawRecord list" where
  "sampleCustomerRows = [[(''customer_internal_id'', RStr ''0''), (''company_name'', RStr ''Acme'')]]"

definition sampleForecastRows :: "rawRecord list" where
  "sampleForecastRows = [[(''month'', RStr ''2024-05''), (''forecasted_amount'', RStr ''1,000.00'')]]"

text \<open>The known tables that are not detail-level tables.\<close>

definition nonDetailTables :: "string list" where
  "nonDetailTables = filter (\<lambda>t. \<not> isDetailTable t) (map fst tableIdMap)"


text \<open>
  A store that records its calls: the world is the list of the chunks received so far, and
  the reply to the call number \<open>k\<close> (from 0) is \<open>replies k\<close>.
\<close>

definition scriptedStore :: "(nat \<Rightarrow> storeReply) \<Rightarrow> (row list list) storeUpsert" where
  "scriptedStore replies tbl chunk onConflict calls = (replies (length calls), calls @ [chunk])"

text \<open>A reply without an error commits the chunk; any other reply is a chunk-level failure.\<close>

definition succeeds :: "storeReply \<Rightarrow> bool" where
  "succeeds r = (case r of Resolved d None \<Rightarrow> True | _ \<Rightarrow> False)"

text \<open>The error that the chunk loop raises for a failing reply.\<close>

definition failureOf :: "(storeError \<Rightarrow> string) \<Rightarrow> storeReply \<Rightarrow> jserror" where
  "failureOf fmt r =
     (case r of Rejected m \<Rightarrow> Error m | Resolved d (Some e) \<Rightarrow> Error (fmt e) | Resolved d None \<Rightarrow> Error [])"

definition okReplies :: "nat \<Rightarrow> storeReply" where
  "okReplies k = Resolved None None"

text \<open>The second call fails, every other call succeeds.\<close>

definition secondCallFails :: "nat \<Rightarrow> storeReply" where
  "secondCallFails k =
     (if k = 1 then Resolved None (Some \<lparr>errMessage = ''payload too large'', errDetails = None\<rparr>)
      else Resolved None None)"

definition sampleRow :: row where
  "sampleRow = [(''customer_internal_id'', JNum (Fin 7)), (''company_name'', JStr ''Acme'')]"

text \<open>
  A remote that records its requests: the world is the list of \<open>(searchId, page)\<close> pairs
  requested so far, and the reply for page \<open>k\<close> is \<open>replies k\<close>.
\<close>

definition scriptedRemote :: "(nat \<Rightarrow> jserror + body) \<Rightarrow> ((string \<times> nat) list) fetchSavedSearch" where
  "scriptedRemote replies sid page requests = (replies page, requests @ [(sid, page)])"

text \<open>The remote that serves the page sequence \<open>pages\<close>, with \<open>hasMore\<close> on all but the last.\<close>

definition servePages :: "rawRecord list list \<Rightarrow> nat \<Rightarrow> jserror + body" where
  "servePages pages k =
     (if k < length pages then Inr (Page (pages ! k) (k + 1 < length pages))
      else Inl (Error ''NetSuite API Error: 404 - Not Found''))"

definition threePages :: "rawRecord list list" where
  "threePages = [[[(''id'', RStr ''1'')], [(''id'', RStr ''2'')]], [[(''id'', RStr ''3'')]], [[(''id'', RStr ''4'')]]]"

text \<open>
  A small world for the orchestrator: the search 2020 answers with a server error, every
  other search has one page with one row; the store accepts everything; both connection
  checks pass; the clock stands still. The world is a number that no call changes.
\<close>

definition sampleFetch :: "nat fetchSavedSearchLambda" where
  "sampleFetch sid page w =
     (if sid = ''2020'' then (Inl (Error ''NetSuite server error. Please try again later.''), w)
      else (Inr (DataPage [[(''name'', RStr ''Acme'')]] False), w))"

definition sampleStoreUpsert :: "nat storeUpsert" where
  "sampleStoreUpsert tbl chunk onConflict w = (Resolved None None, w)"

definition sampleStoreCount :: "nat storeCount" where
  "sampleStoreCount tbl w = (CountResolved (Some 0) None, w)"

definition sampleValidateCredentials :: "nat \<Rightarrow> jserror option \<times> nat" where
  "sampleValidateCredentials w = (None, w)"

definition sampleValidateConnection :: "mapping \<Rightarrow> nat \<Rightarrow> (jserror + bool) \<times> nat" where
  "sampleValidateConnection m w = (Inr True, w)"

definition sampleNow :: "nat \<Rightarrow> string" where
  "sampleNow w = ''2024-05-01T06:00:00.000Z''"

definition sampleRowClock :: "nat \<Rightarrow> nat \<Rightarrow> string" where
  "sampleRowClock w i = ''2024-05-01T06:00:00.000Z''"

definition sampleEnv :: "nat env" where
  "sampleEnv =
     \<lparr>fetchSavedSearch = sampleFetch, storeUpsert = sampleStoreUpsert,
      storeCount = sampleStoreCount, validateCredentials = sampleValidateCredentials,
      validateConnection = sampleValidateConnection, now = sampleNow,
      rowClock = sampleRowClock\<rparr>"

definition customersMapping :: mapping where
  "customersMapping =
     \<lparr>searchId = ''2019'', table = ''customers'', name = ''Customers'',
      mappingType = ''Customer'', mappingMethod = ''upsert''\<rparr>"

definition invoicesMapping :: mapping where
  "invoicesMapping =
     \<lparr>searchId = ''2020'', table = ''invoices'', name = ''Invoices'',
      mappingType = ''Transaction'', mappingMethod = ''upsert''\<rparr>"

definition invoiceLinesMapping :: mapping where
  "invoiceLinesMapping =
     \<lparr>searchId = ''2021'', table = ''invoices_detailed'', name = ''Invoice lines'',
      mappingType = ''Transaction'', mappingMethod = ''upsert''\<rparr>"

definition sampleCatalog :: "mapping list" where
  "sampleCatalog = [customersMapping, invoicesMapping, invoiceLinesMapping]"

text \<open>The statistics after one and after two runs over \<open>sampleCatalog\<close> in that world.\<close>

definition invoicesFailure :: errorEntry where
  "invoicesFailure =
     \<lparr>entryMessage = ''Failed to sync Invoices to invoices'',
      entryError = ''NetSuite server error. Please try again later.'',
      entryTimestamp = ''2024-05-01T06:00:00.000Z''\<rparr>"

definition statsAfterFirstRun :: syncStats where
  "statsAfterFirstRun =
     \<lparr>startTime = Some ''2024-05-01T06:00:00.000Z'', endTime = Some ''2024-05-01T06:00:00.000Z'',
      totalMappings = 3, successfulSyncs = 2, failedSyncs = 1, errors = [invoicesFailure]\<rparr>"

definition statsAfterSecondRun :: syncStats where
  "statsAfterSecondRun =
     \<lparr>startTime = Some ''2024-05-01T06:00:00.000Z'', endTime = Some ''2024-05-01T06:00:00.000Z'',
      totalMappings = 3, successfulSyncs = 4, failedSyncs = 2,
      errors = [invoicesFailure, invoicesFailure]\<rparr>"

text \<open>One raw row of a table that has no case of its own in the \<open>switch\<close>.\<close>

definition sampleWidgetRows :: "rawRecord list" where
  "sampleWidgetRows = [[(''widget_internal_id'', RStr ''0''), (''name'', RStr ''Bolt'')]]"

section \<open>Properties of the record normalizer\<close>

lemmas parse_defs = parseNumber_def parseId_def numOrNull_def parseFloat_def parseInt10_def
  removeCommas_def isWhiteSpace_def isDigit_def digitsVal_def digitVal_def scale10_def jsFloat_def

lemmas row_defs = cash_sales_row_def credit_memos_row_def customers_row_def invoices_row_def
  invoices_detailed_row_def item_fulfillments_row_def item_fulfillments_detailed_row_def
  partners_row_def sales_orders_row_def sales_orders_detailed_row_def

lemma getField_setField: "getField (setField p k v) k = v"
  by (induction p) (auto simp: getField_def)

lemma toStringNum_indexPlus1: "toStringNum (indexPlus1 i) = showNat (i + 1)"
proof -
  have "nat (1 + int i) = Suc i" by simp
  then show ?thesis by (simp add: indexPlus1_def showInt_def)
qed

lemma nth_mapIndexed: "i < length xs \<Longrightarrow> mapIndexed f xs ! i = f (xs ! i) i"
  by (simp add: mapIndexed_def nth_enumerate_eq)

lemma length_mapIndexed: "length (mapIndexed f xs) = length xs"
  by (simp add: mapIndexed_def)

lemma length_processRecordsForTable: "length (processRecordsForTable clock t rs) = length rs"
  by (simp add: processRecordsForTable_def length_mapIndexed)

lemma generic_row_timestamp: "getField (generic_row ts r i) ''timestamp'' = JStr ts"
  by (simp add: generic_row_def Let_def assign_def getField_setField)

lemma nonDetailTables_eq:
  "nonDetailTables = [''cash_sales'', ''credit_memos'', ''customers'', ''invoices'',
     ''item_fulfillments'', ''partners'', ''sales_orders'', ''forecast'']"
  by (simp add: nonDetailTables_def tableIdMap_def isDetailTable_def)

lemma parseId_zero: "parseInt10 s = Fin 0 \<Longrightarrow> parseId (RStr s) = JNull"
  by (simp add: parseId_def numOrNull_def)

lemma parseNumber_zero: "parseFloat (removeCommas s) = Fin 0 \<Longrightarrow> parseNumber (RStr s) = JNull"
  by (simp add: parseNumber_def numOrNull_def)

lemma id_zero_replaced:
  assumes z: "parseInt10 s = Fin 0" and t: "t \<in> set nonDetailTables" and i: "i < length rs"
    and c: "getTableIdColumn t = JStr c" and v: "rget (rs ! i) c = RStr s"
  shows "getField (processRecordsForTable clock t rs ! i) c = JNum (indexPlus1 i)"
proof -
  have ne: "rs \<noteq> []" using i by auto
  have pz: "parseId (RStr s) = JNull" using z by (rule parseId_zero)
  from t have "t = ''cash_sales'' \<or> t = ''credit_memos'' \<or> t = ''customers'' \<or> t = ''invoices''
    \<or> t = ''item_fulfillments'' \<or> t = ''partners'' \<or> t = ''sales_orders'' \<or> t = ''forecast''"
    unfolding nonDetailTables_eq by (simp only: list.set insert_iff empty_iff simp_thms)
  then show ?thesis
  proof (elim disjE)
    assume T: "t = ''cash_sales''"
    with c have "c = ''cash_sale_internal_id''"
      by (simp add: getTableIdColumn_def tableIdMapLookup_def tableIdMap_def)
    with T i ne v pz show ?thesis
      by (simp add: processRecordsForTable_def nth_mapIndexed cash_sales_row_def getField_def orIndex_def)
  next
    assume T: "t = ''credit_memos''"
    with c have "c = ''credit_memo_internal_id''"
      by (simp add: getTableIdColumn_def tableIdMapLookup_def tableIdMap_def)
    with T i ne v pz show ?thesis
      by (simp add: processRecordsForTable_def nth_mapIndexed credit_memos_row_def getField_def orIndex_def)
  next
    assume T: "t = ''customers''"
    with c have "c = ''customer_internal_id''"
      by (simp add: getTableIdColumn_def tableIdMapLookup_def tableIdMap_def)
    with T i ne v pz show ?thesis
      by (simp add: processRecordsForTable_def nth_mapIndexed customers_row_def getField_def orIndex_def)
  next
    assume T: "t = ''invoices''"
    with c have "c = ''invoice_internal_id''"
      by (simp add: getTableIdColumn_def tableIdMapLookup_def tableIdMap_def)
    with T i ne v pz show ?thesis
      by (simp add: processRecordsForTable_def nth_mapIndexed invoices_row_def getField_def orIndex_def)
  next
    assume T: "t = ''item_fulfillments''"
    with c have "c = ''item_fulfillment_internal_id''"
      by (simp add: getTableIdColumn_def tableIdMapLookup_def tableIdMap_def)
    with T i ne v pz show ?thesis
      by (simp add: processRecordsForTable_def nth_mapIndexed item_fulfillments_row_def getField_def orIndex_def)
  next
    assume T: "t = ''partners''"
    with c have "c = ''partner_internal_id''"
      by (simp add: getTableIdColumn_def tableIdMapLookup_def tableIdMap_def)
    with T i ne v pz show ?thesis
      by (simp add: processRecordsForTable_def nth_mapIndexed partners_row_def getField_def orIndex_def)
  next
    assume T: "t = ''sales_orders''"
    with c have "c = ''sales_order_internal_id''"
      by (simp add: getTableIdColumn_def tableIdMapLookup_def tableIdMap_def)
    with T i ne v pz show ?thesis
      by (simp add: processRecordsForTable_def nth_mapIndexed sales_orders_row_def getField_def orIndex_def)
  next
    assume T: "t = ''forecast''"
    with c have "c = ''pkey''"
      by (simp add: getTableIdColumn_def tableIdMapLookup_def tableIdMap_def)
    with T i ne v pz show ?thesis
      by (simp add: processRecordsForTable_def nth_mapIndexed forecast_row_def getField_def orIndex_def)
  qed
qed

text \<open>
  Claim C7. The numeric coercions on the four inputs of the specification:
  \<open>parseNumber\<close> turns "1,234.50" into 1234.5 and the empty string into null;
  \<open>parseId\<close> turns "007" into 7 and null into null.
\<close>

theorem numeric_coercion_examples:
  "parseNumber (RStr ''1,234.50'') = JNum (Fin 1234.5)
   \<and> parseNumber (RStr '''') = JNull
   \<and> parseId (RStr ''007'') = JNum (Fin 7)
   \<and> parseId RNull = JNull"
  by (simp add: parse_defs)

lemma getField_setField_other: "k' \<noteq> k \<Longrightarrow> getField (setField p k v) k' = getField p k'"
  by (induction p) (auto simp: getField_def)

lemma getField_assign:
  "getField (assign p k v) k' = (if k = k' \<and> k \<noteq> ''__proto__'' then v else getField p k')"
  by (auto simp: assign_def getField_setField getField_setField_other)

lemma keys_setField: "fst ` set (setField p k v) = insert k (fst ` set p)"
  by (induction p k v rule: setField.induct) (simp_all add: insert_commute)

lemma keys_assign:
  "fst ` set (assign p k v) = (if k = ''__proto__'' then fst ` set p else insert k (fst ` set p))"
  by (simp only: assign_def keys_setField if_distrib [of "\<lambda>x. fst ` set x"])

lemma keys_genericField:
  "fst ` set (genericField r p x) = (if x = ''__proto__'' then fst ` set p else insert x (fst ` set p))"
  by (simp only: genericField_def Let_def keys_assign if_distrib [of "\<lambda>x. fst ` set x"] if_cancel)

lemma keys_foldl_genericField:
  "fst ` set (foldl (genericField r) p ks) = fst ` set p \<union> (set ks - {''__proto__''})"
proof (induction ks rule: rev_induct)
  case Nil
  then show ?case by simp
next
  case (snoc x xs)
  have "fst ` set (foldl (genericField r) p (xs @ [x]))
        = (if x = ''__proto__'' then fst ` set (foldl (genericField r) p xs)
           else insert x (fst ` set (foldl (genericField r) p xs)))"
    by (simp only: foldl_append foldl.simps keys_genericField)
  also have "\<dots> = fst ` set p \<union> (set (xs @ [x]) - {''__proto__''})"
    unfolding snoc.IH by (cases "x = ''__proto__''") (simp_all add: insert_Diff_if Un_Diff)
  finally show ?case .
qed

lemma getField_absent:
  assumes "k \<notin> fst ` set p"
  shows "getField p k = JUndefined"
proof -
  from assms have "map_of p k = None" by (simp only: map_of_eq_None_iff not_False_eq_True)
  then show ?thesis by (simp add: getField_def)
qed

lemma includesStr_internal_id_names:
  assumes "includesStr k ''internal_id''"
  shows "k \<noteq> ''id''" and "k \<noteq> ''timestamp''" and "k \<noteq> ''__proto__''"
  using assms by auto

lemma genericField_internal_id:
  "includesStr k ''internal_id'' \<Longrightarrow> genericField r p k = assign p k (parseId (rget r k))"
  by (simp add: genericField_def)

lemma genericField_other: "x \<noteq> k \<Longrightarrow> getField (genericField r p x) k = getField p k"
  by (simp add: genericField_def Let_def getField_assign)

lemma foldl_genericField_internal_id:
  assumes "includesStr k ''internal_id''" and "k \<in> set ks"
  shows "getField (foldl (genericField r) p ks) k = parseId (rget r k)"
  using assms(2)
proof (induction ks rule: rev_induct)
  case Nil
  then show ?case by simp
next
  case (snoc x xs)
  show ?case
  proof (cases "x = k")
    case True
    with assms(1) show ?thesis
      by (simp add: genericField_internal_id getField_assign includesStr_internal_id_names)
  next
    case False
    with snoc show ?thesis by (simp add: genericField_other)
  qed
qed

lemma rget_RStr_key: "rget r k = RStr s \<Longrightarrow> k \<in> set (map fst r)"
  by (auto simp: rget_def split: option.splits dest: map_of_SomeD intro: rev_image_eqI)

text \<open>
  The generic path: a column whose name contains \<open>internal_id\<close> gets \<open>parseId\<close> of its
  value and nothing else; and because such a column exists, no \<open>id\<close> is made up.
\<close>

lemma generic_row_internal_id:
  assumes inc: "includesStr k ''internal_id''" and v: "rget r k = RStr s"
  shows "getField (generic_row ts r i) k = parseId (RStr s)"
    and "''id'' \<notin> set (map fst r) \<Longrightarrow> getField (generic_row ts r i) ''id'' = JUndefined"
proof -
  have k: "k \<in> set (map fst r)" using v by (rule rget_RStr_key)
  note n = includesStr_internal_id_names [OF inc]
  let ?p = "foldl (genericField r) [] (map fst r)"
  have keys: "fst ` set ?p = fst ` set r - {''__proto__''}"
    by (simp add: keys_foldl_genericField)
  have "k \<in> fst ` set ?p" using k n(3) by (simp only: keys) simp
  then have "k \<in> set (map fst ?p)" by simp
  then have ex: "list_ex (\<lambda>x. includesStr x ''internal_id'') (map fst ?p)"
    using inc unfolding list_ex_iff by (rule_tac x = k in bexI)
  have row: "generic_row ts r i = assign ?p ''timestamp'' (JStr ts)"
    using ex by (simp add: generic_row_def Let_def)
  have "getField ?p k = parseId (rget r k)"
    by (rule foldl_genericField_internal_id [OF inc k])
  then show "getField (generic_row ts r i) k = parseId (RStr s)"
    using n v by (simp add: row getField_assign)
  show "getField (generic_row ts r i) ''id'' = JUndefined" if "''id'' \<notin> set (map fst r)"
  proof -
    from that have "''id'' \<notin> fst ` set ?p" by (simp only: keys) simp
    then have "getField ?p ''id'' = JUndefined" by (rule getField_absent)
    then show ?thesis by (simp add: row getField_assign)
  qed
qed

lemma process_unknown_table:
  assumes "t \<notin> set (map fst tableIdMap)" and "i < length rs"
  shows "processRecordsForTable clock t rs ! i = generic_row (clock i) (rs ! i) i"
proof -
  have ne: "rs \<noteq> []" using assms(2) by auto
  from assms(1) have "t \<noteq> ''cash_sales''" "t \<noteq> ''credit_memos''" "t \<noteq> ''customers''"
    "t \<noteq> ''invoices''" "t \<noteq> ''invoices_detailed''" "t \<noteq> ''item_fulfillments''"
    "t \<noteq> ''item_fulfillments_detailed''" "t \<noteq> ''partners''" "t \<noteq> ''sales_orders''"
    "t \<noteq> ''sales_orders_detailed''" "t \<noteq> ''forecast''"
    by (simp_all add: tableIdMap_def)
  then show ?thesis using ne assms(2)
    by (simp add: processRecordsForTable_def nth_mapIndexed)
qed

lemma unknown_table_id_zero:
  assumes z: "parseInt10 s = Fin 0" and t: "t \<notin> set (map fst tableIdMap)" and i: "i < length rs"
    and inc: "includesStr k ''internal_id''" and v: "rget (rs ! i) k = RStr s"
  shows "getField (processRecordsForTable clock t rs ! i) k = JNull"
    and "''id'' \<notin> set (map fst (rs ! i))
         \<Longrightarrow> getField (processRecordsForTable clock t rs ! i) ''id'' = JUndefined"
  using generic_row_internal_id [OF inc v] parseId_zero [OF z]
  by (simp_all add: process_unknown_table [OF t i])

text \<open>
  Claim C10, as the code has it. Whenever the text of a value parses to the number zero,
  \<open>parseNumber\<close> (for \<open>parseFloat\<close>) and \<open>parseId\<close> (for \<open>parseInt\<close>) return null
  instead of 0. In each of the eight tables that have a case of their own and are not detail
  tables, a row whose identifier column holds such a text gets the synthetic identifier
  \<open>index + 1\<close> in that column. In a table without a case of its own, a column whose name
  contains \<open>internal_id\<close> and that holds such a text becomes null, and no \<open>id\<close> is made up
  in its place.
\<close>

theorem zero_coerced_to_null:
  "(parseFloat (removeCommas s) = Fin 0 \<longrightarrow> parseNumber (RStr s) = JNull)
   \<and> (parseInt10 s = Fin 0 \<longrightarrow> parseId (RStr s) = JNull)
   \<and> (parseInt10 s = Fin 0 \<and> t \<in> set nonDetailTables \<and> i < length rs
        \<and> getTableIdColumn t = JStr c \<and> rget (rs ! i) c = RStr s
      \<longrightarrow> getField (processRecordsForTable clock t rs ! i) c = JNum (indexPlus1 i))
   \<and> (parseInt10 s = Fin 0 \<and> t \<notin> set (map fst tableIdMap) \<and> i < length rs
        \<and> includesStr k ''internal_id'' \<and> rget (rs ! i) k = RStr s
      \<longrightarrow> getField (processRecordsForTable clock t rs ! i) k = JNull
          \<and> (''id'' \<notin> set (map fst (rs ! i))
               \<longrightarrow> getField (processRecordsForTable clock t rs ! i) ''id'' = JUndefined))"
proof (intro conjI impI)
  show "parseNumber (RStr s) = JNull" if "parseFloat (removeCommas s) = Fin 0"
    using that by (rule parseNumber_zero)
  show "parseId (RStr s) = JNull" if "parseInt10 s = Fin 0"
    using that by (rule parseId_zero)
  show "getField (processRecordsForTable clock t rs ! i) c = JNum (indexPlus1 i)"
    if "parseInt10 s = Fin 0 \<and> t \<in> set nonDetailTables \<and> i < length rs
        \<and> getTableIdColumn t = JStr c \<and> rget (rs ! i) c = RStr s"
    by (rule id_zero_replaced) (simp_all add: that)
  assume a: "parseInt10 s = Fin 0 \<and> t \<notin> set (map fst tableIdMap) \<and> i < length rs
        \<and> includesStr k ''internal_id'' \<and> rget (rs ! i) k = RStr s"
  then have z: "parseInt10 s = Fin 0" and t: "t \<notin> set (map fst tableIdMap)" and i: "i < length rs"
    and inc: "includesStr k ''internal_id''" and v: "rget (rs ! i) k = RStr s"
    by simp_all
  show "getField (processRecordsForTable clock t rs ! i) k = JNull"
    by (rule unknown_table_id_zero(1) [OF z t i inc v])
  show "getField (processRecordsForTable clock t rs ! i) ''id'' = JUndefined"
    if "''id'' \<notin> set (map fst (rs ! i))"
    using that by (rule unknown_table_id_zero(2) [OF z t i inc v])
qed

theorem zero_coerced_to_null_witness:
  "parseNumber (RStr ''0.00'') = JNull
   \<and> parseNumber (RStr ''0'') = JNull
   \<and> parseId (RStr ''0'') = JNull
   \<and> getField (processRecordsForTable sampleClock ''customers'' sampleCustomerRows ! 0)
        ''customer_internal_id'' = JNum (Fin 1)
   \<and> getField (processRecordsForTable sampleClock ''widgets'' sampleWidgetRows ! 0)
        ''widget_internal_id'' = JNull
   \<and> getField (processRecordsForTable sampleClock ''widgets'' sampleWidgetRows ! 0) ''id''
        = JUndefined"
proof -
  have f1: "parseFloat (removeCommas ''0.00'') = Fin 0" by (simp add: parse_defs)
  have f2: "parseFloat (removeCommas ''0'') = Fin 0" by (simp add: parse_defs)
  have i0: "parseInt10 ''0'' = Fin 0" by (simp add: parse_defs)
  have t: "''customers'' \<in> set nonDetailTables" by (simp add: nonDetailTables_eq)
  have c: "getTableIdColumn ''customers'' = JStr ''customer_internal_id''"
    by (simp add: getTableIdColumn_def tableIdMapLookup_def tableIdMap_def)
  have l: "0 < length sampleCustomerRows" by (simp add: sampleCustomerRows_def)
  have v: "rget (sampleCustomerRows ! 0) ''customer_internal_id'' = RStr ''0''"
    by (simp add: sampleCustomerRows_def rget_def)
  have one: "indexPlus1 0 = Fin 1" by (simp add: indexPlus1_def)
  have u: "''widgets'' \<notin> set (map fst tableIdMap)" by (simp add: tableIdMap_def)
  have lw: "0 < length sampleWidgetRows" by (simp add: sampleWidgetRows_def)
  have inc: "includesStr ''widget_internal_id'' ''internal_id''" by simp
  have vw: "rget (sampleWidgetRows ! 0) ''widget_internal_id'' = RStr ''0''"
    by (simp add: sampleWidgetRows_def rget_def)
  have noid: "''id'' \<notin> set (map fst (sampleWidgetRows ! 0))" by (simp add: sampleWidgetRows_def)
  show ?thesis
    using zero_coerced_to_null [of "''0.00''"] f1
      zero_coerced_to_null [of "''0''" "''customers''" 0 sampleCustomerRows
        "''customer_internal_id''" sampleClock]
      zero_coerced_to_null [where s = "''0''" and t = "''widgets''" and i = 0
        and rs = sampleWidgetRows and k = "''widget_internal_id''" and clock = sampleClock]
      f2 i0 t c l v one u lw inc vw noid
    by simp
qed

text \<open>
  Claim C10, as stated, fails on a table that is not a detail table and has no case of its
  own: for \<open>widgets\<close>, the row whose \<open>widget_internal_id\<close> is "0" comes out with null in
  that column and without any synthetic identifier.
\<close>

theorem unknown_table_keeps_null_for_zero_id:
  "\<not> isDetailTable ''widgets'' \<and> parseInt10 ''0'' = Fin 0
   \<and> processRecordsForTable sampleClock ''widgets'' sampleWidgetRows
       = [[(''widget_internal_id'', JNull), (''name'', JStr ''Bolt''),
           (''timestamp'', JStr ''2024-05-01T06:00:00.000Z'')]]"
  by (simp add: isDetailTable_def processRecordsForTable_def mapIndexed_def sampleWidgetRows_def
      generic_row_def genericField_def rget_def assign_def getField_def parseId_def
      numOrNull_def parseInt10_def isWhiteSpace_def isDigit_def digitsVal_def digitVal_def
      jsFloat_def orEmpty_def sampleClock_def)

text \<open>
  Claim C6. In a detail-level table, a raw row that supplies neither a \<open>pkey\<close> nor a
  \<open>line_id\<close> gets the key "<parent id>_<index + 1>", where the parent id is the parsed
  value of the table's identifier column, and "<index + 1>_<index + 1>" when that id is
  missing as well. The parent id is taken within the safe integers (magnitude at most
  \<open>2^53\<close>), where the number read by \<open>parseInt\<close> is the number written and prints in
  plain decimal, and the row list within the length of an array (below \<open>2^32\<close>).
\<close>

theorem detail_pkey_synthesis:
  assumes d: "isDetailTable t" and c: "map_of tableIdMap t = Some c" and i: "i < length rs"
    and nopk: "\<not> truthyRaw (rget (rs ! i) ''pkey'')"
    and noline: "\<not> truthyRaw (rget (rs ! i) ''line_id'')"
    and safe: "\<forall>q. parseId (rget (rs ! i) c) = JNum (Fin q) \<longrightarrow> \<bar>q\<bar> \<le> 2 ^ 53"
    and len: "length rs < 2 ^ 32"
  shows "getField (processRecordsForTable clock t rs ! i) ''pkey'' =
     JStr ((case parseId (rget (rs ! i) c) of JNum n \<Rightarrow> toStringNum n | _ \<Rightarrow> showNat (i + 1))
           @ ''_'' @ showNat (i + 1))"
proof -
  have ne: "rs \<noteq> []" using i by auto
  have pk: "parseId (rget (rs ! i) ''pkey'') = JNull" using nopk by (simp add: parseId_def)
  have ln: "parseId (rget (rs ! i) ''line_id'') = JNull" using noline by (simp add: parseId_def)
  have key: "detailPkey (rs ! i) c i =
     JStr ((case parseId (rget (rs ! i) c) of JNum n \<Rightarrow> toStringNum n | _ \<Rightarrow> showNat (i + 1))
           @ ''_'' @ showNat (i + 1))"
    by (simp add: detailPkey_def pk ln idOrIndex_def toStringNum_indexPlus1 split: jsval.split)
  from d have "t = ''sales_orders_detailed'' \<or> t = ''invoices_detailed''
      \<or> t = ''item_fulfillments_detailed''"
    by (simp only: isDetailTable_def)
  then show ?thesis
  proof (elim disjE)
    assume T: "t = ''sales_orders_detailed''"
    with c have C: "c = ''sales_order_internal_id''" by (simp add: tableIdMap_def)
    show ?thesis using i ne key unfolding T C
      by (simp add: processRecordsForTable_def nth_mapIndexed sales_orders_detailed_row_def getField_def)
  next
    assume T: "t = ''invoices_detailed''"
    with c have C: "c = ''invoice_internal_id''" by (simp add: tableIdMap_def)
    show ?thesis using i ne key unfolding T C
      by (simp add: processRecordsForTable_def nth_mapIndexed invoices_detailed_row_def getField_def)
  next
    assume T: "t = ''item_fulfillments_detailed''"
    with c have C: "c = ''item_fulfillment_internal_id''" by (simp add: tableIdMap_def)
    show ?thesis using i ne key unfolding T C
      by (simp add: processRecordsForTable_def nth_mapIndexed item_fulfillments_detailed_row_def
          getField_def)
  qed
qed

theorem detail_pkey_synthesis_witness:
  "isDetailTable ''invoices_detailed''
   \<and> map_of tableIdMap ''invoices_detailed'' = Some ''invoice_internal_id''
   \<and> 4 < length sampleDetailRows
   \<and> rget (sampleDetailRows ! 4) ''pkey'' = RUndefined
   \<and> rget (sampleDetailRows ! 4) ''line_id'' = RUndefined
   \<and> parseId (rget (sampleDetailRows ! 4) ''invoice_internal_id'') = JNum (Fin 55)
   \<and> length sampleDetailRows < 2 ^ 32
   \<and> getField (processRecordsForTable sampleClock ''invoices_detailed'' sampleDetailRows ! 4) ''pkey''
       = JStr ''55_5''
   \<and> getField (processRecordsForTable sampleClock ''invoices_detailed'' sampleDetailRows ! 0) ''pkey''
       = JStr ''1_1''"
proof -
  have d: "isDetailTable ''invoices_detailed''" by (simp add: isDetailTable_def)
  have c: "map_of tableIdMap ''invoices_detailed'' = Some ''invoice_internal_id''"
    by (simp add: tableIdMap_def)
  have l4: "4 < length sampleDetailRows" and l0: "0 < length sampleDetailRows"
    by (simp_all add: sampleDetailRows_def)
  have r4: "sampleDetailRows ! 4 = [(''invoice_internal_id'', RStr ''55'')]"
    and r0: "sampleDetailRows ! 0 = []"
    by (simp_all add: sampleDetailRows_def)
  have p4: "rget (sampleDetailRows ! 4) ''pkey'' = RUndefined"
    and n4: "rget (sampleDetailRows ! 4) ''line_id'' = RUndefined"
    and p0: "rget (sampleDetailRows ! 0) ''pkey'' = RUndefined"
    and n0: "rget (sampleDetailRows ! 0) ''line_id'' = RUndefined"
    by (simp_all add: r4 r0 rget_def)
  have id4: "parseId (rget (sampleDetailRows ! 4) ''invoice_internal_id'') = JNum (Fin 55)"
    by (simp add: r4 rget_def parse_defs)
  have id0: "parseId (rget (sampleDetailRows ! 0) ''invoice_internal_id'') = JNull"
    by (simp add: r0 rget_def parse_defs)
  have b4: "\<forall>q. parseId (rget (sampleDetailRows ! 4) ''invoice_internal_id'') = JNum (Fin q)
      \<longrightarrow> \<bar>q\<bar> \<le> 2 ^ 53"
    and b0: "\<forall>q. parseId (rget (sampleDetailRows ! 0) ''invoice_internal_id'') = JNum (Fin q)
      \<longrightarrow> \<bar>q\<bar> \<le> 2 ^ 53"
    by (simp_all add: id4 id0)
  have len: "length sampleDetailRows < 2 ^ 32" by (simp add: sampleDetailRows_def)
  have s55: "showInt 55 = ''55''" by (simp add: showInt_def showNat.simps digitChar_def)
  have s5: "showNat 5 = ''5''" and s1: "showNat (Suc 0) = ''1''"
    by (simp_all add: showNat.simps digitChar_def)
  show ?thesis
    using detail_pkey_synthesis [OF d c l4 _ _ b4 len, of sampleClock]
      detail_pkey_synthesis [OF d c l0 _ _ b0 len, of sampleClock] len
    by (simp add: d c l4 p4 n4 p0 n0 id4 id0 s55 s5 s1)
qed

lemma forecast_no_timestamp:
  assumes "i < length rs"
  shows "getField (processRecordsForTable clock ''forecast'' rs ! i) ''timestamp'' = JUndefined"
    and "''timestamp'' \<notin> set (map fst (processRecordsForTable clock ''forecast'' rs ! i))"
proof -
  have ne: "rs \<noteq> []" using assms by auto
  have r: "processRecordsForTable clock ''forecast'' rs ! i = forecast_row (rs ! i) i"
    using ne assms by (simp add: processRecordsForTable_def nth_mapIndexed)
  show "getField (processRecordsForTable clock ''forecast'' rs ! i) ''timestamp'' = JUndefined"
    by (simp add: r forecast_row_def getField_def)
  show "''timestamp'' \<notin> set (map fst (processRecordsForTable clock ''forecast'' rs ! i))"
    by (simp add: r forecast_row_def)
qed

text \<open>
  Claim C4, as the code has it. For every destination table other than \<open>forecast\<close>, every
  row that \<open>processRecordsForTable\<close> produces carries a \<open>timestamp\<close> field holding the
  wall-clock reading taken for that row. Every row produced for the \<open>forecast\<close> table
  carries none: it has no field of that name, and reading it gives \<open>undefined\<close>.
\<close>

theorem timestamp_on_every_row_except_forecast:
  assumes "i < length rs"
  shows "(t \<noteq> ''forecast'' \<longrightarrow>
            getField (processRecordsForTable clock t rs ! i) ''timestamp'' = JStr (clock i))
    \<and> getField (processRecordsForTable clock ''forecast'' rs ! i) ''timestamp'' = JUndefined
    \<and> ''timestamp'' \<notin> set (map fst (processRecordsForTable clock ''forecast'' rs ! i))"
proof (intro conjI impI)
  have ne: "rs \<noteq> []" using assms by auto
  show "getField (processRecordsForTable clock t rs ! i) ''timestamp'' = JStr (clock i)"
    if "t \<noteq> ''forecast''"
    using that assms ne
    by (simp add: processRecordsForTable_def nth_mapIndexed generic_row_timestamp)
       (simp add: row_defs getField_def)
  show "getField (processRecordsForTable clock ''forecast'' rs ! i) ''timestamp'' = JUndefined"
    by (rule forecast_no_timestamp(1) [OF assms])
  show "''timestamp'' \<notin> set (map fst (processRecordsForTable clock ''forecast'' rs ! i))"
    by (rule forecast_no_timestamp(2) [OF assms])
qed

theorem timestamp_on_every_row_except_forecast_witness:
  "0 < length sampleCustomerRows \<and> ''customers'' \<noteq> ''forecast''
   \<and> getField (processRecordsForTable sampleClock ''customers'' sampleCustomerRows ! 0) ''timestamp''
       = JStr ''2024-05-01T06:00:00.000Z''
   \<and> getField (processRecordsForTable sampleClock ''forecast'' sampleCustomerRows ! 0) ''timestamp''
       = JUndefined"
proof -
  have l: "0 < length sampleCustomerRows" by (simp add: sampleCustomerRows_def)
  show ?thesis
    using timestamp_on_every_row_except_forecast [OF l, of "''customers''" sampleClock] l
    by (simp add: sampleClock_def)
qed

text \<open>
  Claim C4, as stated, fails on the forecast table: the row built for a forecast record has
  the five fields \<open>month\<close>, \<open>partner\<close>, \<open>forecasted_amount\<close>, \<open>partner_internal_id\<close> and
  \<open>pkey\<close>, and reading its \<open>timestamp\<close> gives \<open>undefined\<close>.
\<close>

theorem forecast_rows_have_no_timestamp:
  "processRecordsForTable sampleClock ''forecast'' sampleForecastRows \<noteq> []
   \<and> getField (processRecordsForTable sampleClock ''forecast'' sampleForecastRows ! 0) ''timestamp''
       = JUndefined"
  by (simp add: processRecordsForTable_def mapIndexed_def forecast_row_def getField_def
      sampleForecastRows_def)

section \<open>Properties of the destination writer\<close>

lemma chunkLoop_concat: "concat (chunkLoop xs i) = drop i xs"
proof (induction xs i rule: chunkLoop.induct)
  case (1 records i)
  show ?case
  proof (cases "i < length records")
    case True
    have "concat (chunkLoop records i)
        = take chunkSize (drop i records) @ drop (i + chunkSize) records"
      using True 1 by (subst chunkLoop.simps) (simp add: slice_def)
    also have "\<dots> = drop i records"
      by (metis add.commute append_take_drop_id drop_drop)
    finally show ?thesis .
  next
    case False
    then show ?thesis by (subst chunkLoop.simps) simp
  qed
qed

lemma chunkLoop_sizes: "c \<in> set (chunkLoop xs i) \<Longrightarrow> c \<noteq> [] \<and> length c \<le> chunkSize"
proof (induction xs i rule: chunkLoop.induct)
  case (1 records i)
  show ?case
  proof (cases "i < length records")
    case True
    from "1.prems" have "c = slice records i (i + chunkSize) \<or> c \<in> set (chunkLoop records (i + chunkSize))"
      using True by (subst (asm) chunkLoop.simps) simp
    then show ?thesis
    proof
      assume "c = slice records i (i + chunkSize)"
      then show ?thesis using True by (simp add: slice_def chunkSize_def)
    next
      assume "c \<in> set (chunkLoop records (i + chunkSize))"
      then show ?thesis using "1.IH" True by simp
    qed
  next
    case False
    with "1.prems" show ?thesis by (subst (asm) chunkLoop.simps) simp
  qed
qed

lemma chunkLoop_nth:
  "k < length (chunkLoop xs i) \<Longrightarrow>
   chunkLoop xs i ! k = slice xs (i + k * chunkSize) (i + k * chunkSize + chunkSize)"
proof (induction xs i arbitrary: k rule: chunkLoop.induct)
  case (1 records i)
  show ?case
  proof (cases "i < length records")
    case True
    have eq: "chunkLoop records i = slice records i (i + chunkSize) # chunkLoop records (i + chunkSize)"
      using True by (subst chunkLoop.simps) simp
    show ?thesis
    proof (cases k)
      case 0
      then show ?thesis by (simp add: eq)
    next
      case (Suc j)
      with "1.prems" have "j < length (chunkLoop records (i + chunkSize))" by (simp add: eq)
      from "1.IH" [OF True this] show ?thesis
        by (simp add: eq Suc add.assoc add.left_commute add.commute)
    qed
  next
    case False
    with "1.prems" show ?thesis by (subst (asm) chunkLoop.simps) simp
  qed
qed

lemma chunkLoop_nonempty: "xs \<noteq> [] \<Longrightarrow> chunkLoop xs 0 \<noteq> []"
  by (subst chunkLoop.simps) simp

lemma upsertChunks_all_ok:
  "(\<forall>j < length cs. succeeds (replies (length calls + j))) \<Longrightarrow>
   \<exists>res. upsertChunks fmt (scriptedStore replies) t oc cs results calls = (Inr res, calls @ cs)"
proof (induction cs arbitrary: results calls)
  case Nil
  then show ?case by simp
next
  case (Cons chunk rest)
  from Cons.prems have ok0: "succeeds (replies (length calls))" by force
  then obtain d where r0: "replies (length calls) = Resolved d None"
    by (auto simp: succeeds_def split: storeReply.splits option.splits)
  have "\<forall>j < length rest. succeeds (replies (length (calls @ [chunk]) + j))"
    using Cons.prems by auto
  from Cons.IH [OF this, of "results @ dataOrEmpty d"]
  obtain res where
    "upsertChunks fmt (scriptedStore replies) t oc rest (results @ dataOrEmpty d) (calls @ [chunk])
       = (Inr res, (calls @ [chunk]) @ rest)" by blast
  moreover have "scriptedStore replies t chunk oc calls = (Resolved d None, calls @ [chunk])"
    by (simp add: scriptedStore_def r0)
  ultimately show ?case by simp
qed

lemma upsertChunks_fails_at:
  "k < length cs \<Longrightarrow> (\<forall>j < k. succeeds (replies (length calls + j))) \<Longrightarrow>
   \<not> succeeds (replies (length calls + k)) \<Longrightarrow>
   upsertChunks fmt (scriptedStore replies) t oc cs results calls
     = (Inl (failureOf fmt (replies (length calls + k))), calls @ take (Suc k) cs)"
proof (induction cs arbitrary: results calls k)
  case Nil
  then show ?case by simp
next
  case (Cons chunk rest)
  show ?case
  proof (cases k)
    case 0
    with Cons.prems have nok: "\<not> succeeds (replies (length calls))" by simp
    have "scriptedStore replies t chunk oc calls = (replies (length calls), calls @ [chunk])"
      by (simp add: scriptedStore_def)
    then show ?thesis using 0 nok
      by (auto simp: succeeds_def failureOf_def split: storeReply.splits option.splits)
  next
    case (Suc j)
    from Cons.prems Suc have ok0: "succeeds (replies (length calls))" by force
    then obtain d where r0: "replies (length calls) = Resolved d None"
      by (auto simp: succeeds_def split: storeReply.splits option.splits)
    have a: "j < length rest" using Cons.prems Suc by simp
    have b: "\<forall>i < j. succeeds (replies (length (calls @ [chunk]) + i))"
      using Cons.prems Suc by auto
    have c: "\<not> succeeds (replies (length (calls @ [chunk]) + j))"
      using Cons.prems Suc by simp
    have "scriptedStore replies t chunk oc calls = (Resolved d None, calls @ [chunk])"
      by (simp add: scriptedStore_def r0)
    with Cons.IH [OF a b c, of "results @ dataOrEmpty d"]
    show ?thesis by (simp add: Suc)
  qed
qed

lemma upsert_valid_call:
  assumes "isValidTableName t" and "rows \<noteq> []"
    and "\<not> truthy oc \<or> isValidConflictColumn oc" and "oc \<noteq> JUndefined"
  shows "upsert store t (Some rows) oc w =
     (case upsertChunks upsertErrorMessage store t oc (chunkLoop rows 0) [] w of
        (Inl e, w') \<Rightarrow> (Inl (upsertFailure t e), w')
      | (Inr results, w') \<Rightarrow> (Inr (Upserted (length rows) (length results)), w'))"
  using assms by (auto simp: upsert_def)

text \<open>
  Claim C2. For a non-empty row list (and names that pass validation), \<open>upsert\<close> splits the
  rows into consecutive chunks of at most 500, in order. Against a store that records its
  calls: when every call succeeds, exactly the chunks are sent, one call each, in order;
  when the call for chunk \<open>k\<close> is the first to fail, \<open>upsert\<close> fails with the error
  "Failed to upsert to table ...", the chunks before \<open>k\<close> have been sent and accepted, and
  no chunk after \<open>k\<close> is sent.
\<close>

theorem upsert_chunking:
  assumes t: "isValidTableName t" and rows: "rows \<noteq> []"
    and oc: "\<not> truthy oc \<or> isValidConflictColumn oc" and ocd: "oc \<noteq> JUndefined"
  shows "concat (chunkLoop rows 0) = rows
    \<and> (\<forall>k < length (chunkLoop rows 0).
          chunkLoop rows 0 ! k = slice rows (k * 500) (k * 500 + 500)
          \<and> chunkLoop rows 0 ! k \<noteq> [] \<and> length (chunkLoop rows 0 ! k) \<le> 500)
    \<and> ((\<forall>j < length (chunkLoop rows 0). succeeds (replies j)) \<longrightarrow>
          (\<exists>n. upsert (scriptedStore replies) t (Some rows) oc []
                 = (Inr (Upserted (length rows) n), chunkLoop rows 0)))
    \<and> (\<forall>k < length (chunkLoop rows 0).
          (\<forall>j < k. succeeds (replies j)) \<and> \<not> succeeds (replies k) \<longrightarrow>
          upsert (scriptedStore replies) t (Some rows) oc []
            = (Inl (upsertFailure t (failureOf upsertErrorMessage (replies k))),
               take (Suc k) (chunkLoop rows 0)))"
proof (intro conjI allI impI)
  show "concat (chunkLoop rows 0) = rows" by (simp add: chunkLoop_concat)
next
  fix k assume k: "k < length (chunkLoop rows 0)"
  from chunkLoop_nth [OF k]
  show "chunkLoop rows 0 ! k = slice rows (k * 500) (k * 500 + 500)"
    by (simp add: chunkSize_def)
  from k have "chunkLoop rows 0 ! k \<in> set (chunkLoop rows 0)" by simp
  from chunkLoop_sizes [OF this]
  show "chunkLoop rows 0 ! k \<noteq> []" and "length (chunkLoop rows 0 ! k) \<le> 500"
    by (simp_all add: chunkSize_def)
next
  assume "\<forall>j < length (chunkLoop rows 0). succeeds (replies j)"
  then have "\<forall>j < length (chunkLoop rows 0). succeeds (replies (length ([] :: row list list) + j))"
    by simp
  from upsertChunks_all_ok [OF this, of upsertErrorMessage t oc "[]"]
  obtain res where
    "upsertChunks upsertErrorMessage (scriptedStore replies) t oc (chunkLoop rows 0) [] []
       = (Inr res, chunkLoop rows 0)" by auto
  then show "\<exists>n. upsert (scriptedStore replies) t (Some rows) oc []
                 = (Inr (Upserted (length rows) n), chunkLoop rows 0)"
    by (simp add: upsert_valid_call [OF t rows oc ocd])
next
  fix k assume k: "k < length (chunkLoop rows 0)"
    and f: "(\<forall>j < k. succeeds (replies j)) \<and> \<not> succeeds (replies k)"
  have a: "\<forall>j < k. succeeds (replies (length ([] :: row list list) + j))" using f by simp
  have b: "\<not> succeeds (replies (length ([] :: row list list) + k))" using f by simp
  from upsertChunks_fails_at [OF k a b, of upsertErrorMessage t oc "[]"]
  show "upsert (scriptedStore replies) t (Some rows) oc []
            = (Inl (upsertFailure t (failureOf upsertErrorMessage (replies k))),
               take (Suc k) (chunkLoop rows 0))"
    by (simp add: upsert_valid_call [OF t rows oc ocd])
qed

lemma isValidTableName_customers: "isValidTableName ''customers''"
  by (simp add: isValidTableName_def isAlnum_def)

lemma isValidConflictColumn_customer_internal_id:
  "isValidConflictColumn (JStr ''customer_internal_id'')"
  by (simp add: isValidConflictColumn_def isAlnum_def)

lemma chunkLoop_1200:
  "chunkLoop (replicate 1200 x) 0 = [replicate 500 x, replicate 500 x, replicate 200 x]"
proof -
  have "chunkLoop (replicate 1200 x) 1500 = []"
    by (subst chunkLoop.simps) simp
  then have "chunkLoop (replicate 1200 x) 1000 = [replicate 200 x]"
    by (subst chunkLoop.simps) (simp add: slice_def chunkSize_def)
  then have "chunkLoop (replicate 1200 x) 500 = [replicate 500 x, replicate 200 x]"
    by (subst chunkLoop.simps) (simp add: slice_def chunkSize_def)
  then show ?thesis
    by (subst chunkLoop.simps) (simp add: slice_def chunkSize_def)
qed

theorem upsert_chunking_witness:
  "isValidTableName ''customers'' \<and> replicate 1200 sampleRow \<noteq> []
   \<and> isValidConflictColumn (JStr ''customer_internal_id'')
   \<and> map length (chunkLoop (replicate 1200 sampleRow) 0) = [500, 500, 200]
   \<and> (\<exists>n. upsert (scriptedStore okReplies) ''customers'' (Some (replicate 1200 sampleRow))
             (JStr ''customer_internal_id'') []
           = (Inr (Upserted 1200 n),
              [replicate 500 sampleRow, replicate 500 sampleRow, replicate 200 sampleRow]))
   \<and> upsert (scriptedStore secondCallFails) ''customers'' (Some (replicate 1200 sampleRow))
        (JStr ''customer_internal_id'') []
      = (Inl (Error ''Failed to upsert to table customers: Supabase upsert error: payload too large''),
         [replicate 500 sampleRow, replicate 500 sampleRow])"
proof -
  have r: "replicate 1200 sampleRow \<noteq> []" by simp
  have oc: "\<not> truthy (JStr ''customer_internal_id'') \<or> isValidConflictColumn (JStr ''customer_internal_id'')"
    by (simp add: isValidConflictColumn_customer_internal_id)
  have ocd: "JStr ''customer_internal_id'' \<noteq> JUndefined" by simp
  note main = upsert_chunking [OF isValidTableName_customers r oc ocd]
  have ok: "\<forall>j<3. succeeds (okReplies j)" by (simp add: okReplies_def succeeds_def)
  have f0: "succeeds (secondCallFails 0)" and f1: "\<not> succeeds (secondCallFails 1)"
    by (simp_all add: secondCallFails_def succeeds_def)
  have fo: "failureOf upsertErrorMessage (secondCallFails (Suc 0)) = Error ''Supabase upsert error: payload too large''"
    by (simp add: secondCallFails_def failureOf_def upsertErrorMessage_def)
  have "1 < length (chunkLoop (replicate 1200 sampleRow) 0)" by (simp add: chunkLoop_1200)
  with main [of secondCallFails] f0 f1
  have bad: "upsert (scriptedStore secondCallFails) ''customers'' (Some (replicate 1200 sampleRow))
        (JStr ''customer_internal_id'') []
      = (Inl (upsertFailure ''customers'' (failureOf upsertErrorMessage (secondCallFails 1))),
         take (Suc 1) (chunkLoop (replicate 1200 sampleRow) 0))"
    by simp
  from main [of okReplies] ok
  have good: "\<exists>n. upsert (scriptedStore okReplies) ''customers'' (Some (replicate 1200 sampleRow))
             (JStr ''customer_internal_id'') []
           = (Inr (Upserted (length (replicate 1200 sampleRow)) n), chunkLoop (replicate 1200 sampleRow) 0)"
    by (simp add: chunkLoop_1200)
  show ?thesis
    using good bad
    by (simp add: isValidTableName_customers isValidConflictColumn_customer_internal_id
        chunkLoop_1200 fo upsertFailure_def)
qed

lemma upsertLegacy_chunking:
  assumes rows: "rows \<noteq> []" and ocd: "oc \<noteq> JUndefined"
  shows "((\<forall>j < length (chunkLoop rows 0). succeeds (replies j)) \<longrightarrow>
          (\<exists>n. upsertLegacy (scriptedStore replies) t (Some rows) oc []
                 = (Inr (Upserted (length rows) n), chunkLoop rows 0)))
    \<and> (\<forall>k < length (chunkLoop rows 0).
          (\<forall>j < k. succeeds (replies j)) \<and> \<not> succeeds (replies k) \<longrightarrow>
          upsertLegacy (scriptedStore replies) t (Some rows) oc []
            = (Inl (upsertFailure t (failureOf upsertErrorMessageLegacy (replies k))),
               take (Suc k) (chunkLoop rows 0)))"
proof (intro conjI allI impI)
  assume "\<forall>j < length (chunkLoop rows 0). succeeds (replies j)"
  then have "\<forall>j < length (chunkLoop rows 0). succeeds (replies (length ([] :: row list list) + j))"
    by simp
  from upsertChunks_all_ok [OF this, of upsertErrorMessageLegacy t oc "[]"]
  obtain res where
    "upsertChunks upsertErrorMessageLegacy (scriptedStore replies) t oc (chunkLoop rows 0) [] []
       = (Inr res, chunkLoop rows 0)" by auto
  then show "\<exists>n. upsertLegacy (scriptedStore replies) t (Some rows) oc []
                 = (Inr (Upserted (length rows) n), chunkLoop rows 0)"
    using rows ocd by (simp add: upsertLegacy_def)
next
  fix k assume k: "k < length (chunkLoop rows 0)"
    and f: "(\<forall>j < k. succeeds (replies j)) \<and> \<not> succeeds (replies k)"
  have a: "\<forall>j < k. succeeds (replies (length ([] :: row list list) + j))" using f by simp
  have b: "\<not> succeeds (replies (length ([] :: row list list) + k))" using f by simp
  from upsertChunks_fails_at [OF k a b, of upsertErrorMessageLegacy t oc "[]"]
  show "upsertLegacy (scriptedStore replies) t (Some rows) oc []
            = (Inl (upsertFailure t (failureOf upsertErrorMessageLegacy (replies k))),
               take (Suc k) (chunkLoop rows 0))"
    using rows ocd by (simp add: upsertLegacy_def)
qed

text \<open>
  Claim C5, as the code has it. With a valid table name, \<open>upsert\<close> given something that is
  not an array fails with "Records must be an array", and given an empty array it returns
  \<open>{count: 0}\<close> without an error; the older writer fails with "No records provided for
  upsert" in both cases. None of the four issues a store call: the world is returned as it
  was, whatever the store.
\<close>

theorem upsert_without_rows:
  assumes "isValidTableName t"
  shows "upsert store t None oc w = (Inl (Error ''Records must be an array''), w)
    \<and> upsert store t (Some []) oc w = (Inr NoRecords, w)
    \<and> upsertLegacy store t None oc w = (Inl (Error ''No records provided for upsert''), w)
    \<and> upsertLegacy store t (Some []) oc w = (Inl (Error ''No records provided for upsert''), w)"
  using assms by (simp add: upsert_def upsertLegacy_def)

theorem upsert_without_rows_witness:
  "isValidTableName ''customers''
   \<and> upsert (scriptedStore okReplies) ''customers'' None (JStr ''customer_internal_id'') []
       = (Inl (Error ''Records must be an array''), [])
   \<and> upsertLegacy (scriptedStore okReplies) ''customers'' (Some []) (JStr ''customer_internal_id'') []
       = (Inl (Error ''No records provided for upsert''), [])"
  using upsert_without_rows [OF isValidTableName_customers,
      of "scriptedStore okReplies" "JStr ''customer_internal_id''" "[]"]
  by (simp add: isValidTableName_customers)

text \<open>
  Claim C5, as stated, fails on the current writer: an empty row list with a valid table
  name and a valid conflict column is answered with \<open>{count: 0}\<close>, not with an error.
\<close>

theorem upsert_empty_list_is_not_an_error:
  "isValidTableName ''customers'' \<and> isValidConflictColumn (JStr ''customer_internal_id'')
   \<and> upsert (scriptedStore okReplies) ''customers'' (Some []) (JStr ''customer_internal_id'') []
       = (Inr NoRecords, [])"
  by (simp add: upsert_def isValidTableName_customers isValidConflictColumn_customer_internal_id)

text \<open>
  Claim C9, as the code has it. A table name that does not match \<open>^[A-Za-z0-9_-]+$\<close>
  makes \<open>upsert\<close> fail with "Invalid table name format"; with a valid table name and a
  non-empty array of rows, a conflict column that is truthy (a non-empty string, or a value
  that is no string) and does not match \<open>^[A-Za-z0-9_ -]+$\<close> makes it fail with "Invalid
  conflict column format". Both happen before any store call: the world is returned as it
  was, whatever the store.
\<close>

theorem upsert_name_validation:
  "(\<not> isValidTableName t \<longrightarrow>
      upsert store t records oc w = (Inl (Error ''Invalid table name format''), w))
   \<and> (isValidTableName t \<and> rows \<noteq> [] \<and> truthy oc \<and> \<not> isValidConflictColumn oc \<longrightarrow>
      upsert store t (Some rows) oc w = (Inl (Error ''Invalid conflict column format''), w))"
  by (auto simp: upsert_def)

theorem upsert_name_validation_witness:
  "\<not> isValidTableName ''bad table!''
   \<and> upsert (scriptedStore okReplies) ''bad table!'' (Some [sampleRow]) (JStr ''id'') []
       = (Inl (Error ''Invalid table name format''), [])
   \<and> isValidTableName ''customers'' \<and> [sampleRow] \<noteq> []
   \<and> truthy (JStr ''id;drop'') \<and> \<not> isValidConflictColumn (JStr ''id;drop'')
   \<and> upsert (scriptedStore okReplies) ''customers'' (Some [sampleRow]) (JStr ''id;drop'') []
       = (Inl (Error ''Invalid conflict column format''), [])"
proof -
  have a: "\<not> isValidTableName ''bad table!''" by (simp add: isValidTableName_def isAlnum_def)
  have b: "\<not> isValidConflictColumn (JStr ''id;drop'')"
    by (simp add: isValidConflictColumn_def isAlnum_def)
  have c: "truthy (JStr ''id;drop'')" by simp
  show ?thesis
    using upsert_name_validation [of "''bad table!''" "scriptedStore okReplies" "Some [sampleRow]"
        "JStr ''id''" "[]"]
      upsert_name_validation [of "''customers''" "scriptedStore okReplies" "Some [sampleRow]"
        "JStr ''id;drop''" "[]" "[sampleRow]"]
      a b c isValidTableName_customers
    by simp
qed

text \<open>
  Claim C9, as stated, fails in two places. In the current writer the empty conflict column
  does not match \<open>^[A-Za-z0-9_ -]+$\<close>, yet \<open>if (onConflict)\<close> skips the check for it, so
  the rows are sent to the store and \<open>upsert\<close> succeeds. The older writer checks neither
  name: with the table name "bad table!" and the conflict column "id;drop" the rows are sent
  to the store as well.
\<close>

theorem name_checks_that_are_skipped:
  "isValidTableName ''customers'' \<and> \<not> isValidConflictColumn (JStr '''')
   \<and> upsert (scriptedStore okReplies) ''customers'' (Some [sampleRow]) (JStr '''') []
       = (Inr (Upserted 1 0), [[sampleRow]])
   \<and> \<not> isValidTableName ''bad table!'' \<and> \<not> isValidConflictColumn (JStr ''id;drop'')
   \<and> upsertLegacy (scriptedStore okReplies) ''bad table!'' (Some [sampleRow]) (JStr ''id;drop'') []
       = (Inr (Upserted 1 0), [[sampleRow]])"
proof -
  have c: "chunkLoop [sampleRow] 0 = [[sampleRow]]"
  proof -
    have "chunkLoop [sampleRow] 500 = []" by (subst chunkLoop.simps) simp
    then show ?thesis by (subst chunkLoop.simps) (simp add: slice_def chunkSize_def)
  qed
  have s: "scriptedStore okReplies tbl [sampleRow] oc [] = (Resolved None None, [[sampleRow]])"
    for tbl oc
    by (simp add: scriptedStore_def okReplies_def)
  have a: "\<not> isValidTableName ''bad table!''" by (simp add: isValidTableName_def isAlnum_def)
  have b: "\<not> isValidConflictColumn (JStr ''id;drop'')"
    by (simp add: isValidConflictColumn_def isAlnum_def)
  have e: "\<not> isValidConflictColumn (JStr '''')" by (simp add: isValidConflictColumn_def)
  have u: "upsert (scriptedStore okReplies) ''customers'' (Some [sampleRow]) (JStr '''') []
       = (Inr (Upserted 1 0), [[sampleRow]])"
    by (simp add: upsert_def isValidTableName_customers c s dataOrEmpty_def)
  have l: "upsertLegacy (scriptedStore okReplies) ''bad table!'' (Some [sampleRow]) (JStr ''id;drop'') []
       = (Inr (Upserted 1 0), [[sampleRow]])"
    by (simp add: upsertLegacy_def c s dataOrEmpty_def)
  show ?thesis by (simp only: isValidTableName_customers a b e u l simp_thms)
qed

section \<open>Properties of the conflict key resolver\<close>

text \<open>
  The selection is the same in both paths; detail tables use \<open>pkey\<close>, the other tables of
  the static map use their column, and a table that is neither in the map nor the name of a
  member of \<open>Object.prototype\<close> gets \<open>id\<close>.
\<close>

lemma conflict_key_selection:
  "conflictKeyPaginated t = conflictKeyBulk t
   \<and> (isDetailTable t \<longrightarrow> conflictKeyBulk t = JStr ''pkey'')
   \<and> (\<not> isDetailTable t \<and> map_of tableIdMap t = Some c \<longrightarrow> conflictKeyBulk t = JStr c \<and> c \<noteq> [])
   \<and> (map_of tableIdMap t = None \<and> t \<notin> set objectPrototypeMembers \<longrightarrow> conflictKeyBulk t = JStr ''id'')"
proof (intro conjI impI)
  show "conflictKeyPaginated t = conflictKeyBulk t"
    by (simp add: conflictKeyPaginated_def conflictKeyBulk_def)
  show "conflictKeyBulk t = JStr ''pkey''" if "isDetailTable t"
    using that by (simp add: conflictKeyBulk_def)
  show "conflictKeyBulk t = JStr ''id''" if "map_of tableIdMap t = None \<and> t \<notin> set objectPrototypeMembers"
  proof -
    have "\<not> isDetailTable t" using that by (auto simp: isDetailTable_def tableIdMap_def)
    then show ?thesis using that
      by (simp add: conflictKeyBulk_def getTableIdColumn_def tableIdMapLookup_def)
  qed
  assume a: "\<not> isDetailTable t \<and> map_of tableIdMap t = Some c"
  then have "(t, c) \<in> set tableIdMap" by (simp add: map_of_SomeD)
  then show "c \<noteq> []" by (auto simp: tableIdMap_def)
  then show "conflictKeyBulk t = JStr c" using a
    by (simp add: conflictKeyBulk_def getTableIdColumn_def tableIdMapLookup_def)
qed

text \<open>
  Claim C8 at the table name \<open>constructor\<close>, which passes the table-name check and is not
  in the static map: the lookup \<open>tableIdMap[table]\<close> finds the inherited
  \<open>Object.prototype.constructor\<close>, which is truthy, so the fallback \<open>'id'\<close> is not taken;
  the value is no string, and \<open>upsert\<close> rejects it as a conflict column.
\<close>

theorem inherited_member_defeats_default:
  "isValidTableName ''constructor'' \<and> map_of tableIdMap ''constructor'' = None
   \<and> getTableIdColumn ''constructor'' = JBuiltin ''constructor''
   \<and> conflictKeyBulk ''constructor'' = JBuiltin ''constructor''
   \<and> conflictKeyPaginated ''constructor'' = JBuiltin ''constructor''
   \<and> upsert (scriptedStore okReplies) ''constructor'' (Some [sampleRow])
        (conflictKeyBulk ''constructor'') []
       = (Inl (Error ''Invalid conflict column format''), [])"
proof -
  have v: "isValidTableName ''constructor''" by (simp add: isValidTableName_def isAlnum_def)
  have m: "map_of tableIdMap ''constructor'' = None" by (simp add: tableIdMap_def)
  have g: "getTableIdColumn ''constructor'' = JBuiltin ''constructor''"
    by (simp add: getTableIdColumn_def tableIdMapLookup_def m objectPrototypeMembers_def)
  have d: "\<not> isDetailTable ''constructor''" by (simp add: isDetailTable_def)
  have k: "conflictKeyBulk ''constructor'' = JBuiltin ''constructor''"
    by (simp add: conflictKeyBulk_def g d)
  have k': "conflictKeyPaginated ''constructor'' = JBuiltin ''constructor''"
    by (simp add: conflictKeyPaginated_def g d)
  have u: "upsert (scriptedStore okReplies) ''constructor'' (Some [sampleRow])
        (JBuiltin ''constructor'') [] = (Inl (Error ''Invalid conflict column format''), [])"
    by (simp add: upsert_def v isValidConflictColumn_def)
  show ?thesis by (simp only: v m g k k' u simp_thms)
qed

section \<open>Properties of the source reader\<close>

lemma fetchAllLoop_servePages:
  "p < length pages \<Longrightarrow>
   fetchAllLoop (scriptedRemote (servePages pages)) sid p acc requests
     = Some (Inr (acc @ concat (drop p pages)), requests @ map (\<lambda>k. (sid, k)) [p..<length pages])"
proof (induction "length pages - p" arbitrary: p acc requests)
  case 0
  then show ?case by simp
next
  case (Suc n)
  have step: "scriptedRemote (servePages pages) sid p requests
      = (Inr (Page (pages ! p) (p + 1 < length pages)), requests @ [(sid, p)])"
    using Suc.prems by (simp add: scriptedRemote_def servePages_def)
  show ?case
  proof (cases "p + 1 < length pages")
    case True
    have n: "n = length pages - (p + 1)" using Suc.hyps(2) by simp
    have d: "drop p pages = pages ! p # drop (p + 1) pages"
      using Suc.prems by (simp add: Cons_nth_drop_Suc)
    have u: "[p..<length pages] = p # [p + 1..<length pages]"
      using Suc.prems by (simp add: upt_conv_Cons)
    show ?thesis
      using Suc.hyps(1) [OF n True, of "acc @ pages ! p" "requests @ [(sid, p)]"] True
      by (subst fetchAllLoop.simps) (simp add: step parseNetSuiteResponse_def d u)
  next
    case False
    with Suc.prems have l: "length pages = p + 1" by simp
    have d: "drop p pages = [pages ! p]"
      using Suc.prems l by (metis Cons_nth_drop_Suc Suc_eq_plus1 drop_all order_refl)
    have u: "[p..<length pages] = [p]" using l by simp
    show ?thesis
      using False
      by (subst fetchAllLoop.simps) (simp add: step parseNetSuiteResponse_def d u)
  qed
qed

text \<open>
  Claim C3. Against a remote that serves a non-empty page sequence, answering \<open>hasMore\<close>
  true on every page but the last, \<open>fetchAllSavedSearchPages\<close> returns; it has requested
  the pages 0, 1, ... in order, one request each, none after the last page; and its result is
  the concatenation of the pages' rows in page order.
\<close>

theorem fetch_all_pages:
  assumes "pages \<noteq> []"
  shows "fetchAllSavedSearchPages (scriptedRemote (servePages pages)) sid []
     = Some (Inr (concat pages), map (\<lambda>k. (sid, k)) [0..<length pages])"
proof -
  have "0 < length pages" using assms by simp
  from fetchAllLoop_servePages [OF this, of sid "[]" "[]"]
  show ?thesis by (simp add: fetchAllSavedSearchPages_def)
qed

theorem fetch_all_pages_witness:
  "threePages \<noteq> []
   \<and> servePages threePages 0 = Inr (Page (threePages ! 0) True)
   \<and> servePages threePages 1 = Inr (Page (threePages ! 1) True)
   \<and> servePages threePages 2 = Inr (Page (threePages ! 2) False)
   \<and> fetchAllSavedSearchPages (scriptedRemote (servePages threePages)) ''2019'' []
       = Some (Inr [[(''id'', RStr ''1'')], [(''id'', RStr ''2'')], [(''id'', RStr ''3'')],
                    [(''id'', RStr ''4'')]],
               [(''2019'', 0), (''2019'', 1), (''2019'', 2)])"
proof -
  have ne: "threePages \<noteq> []" by (simp add: threePages_def)
  have l: "length threePages = 3" by (simp add: threePages_def)
  have u: "[0..<3] = [0, 1, 2]" by (simp add: upt_rec)
  show ?thesis
    using fetch_all_pages [OF ne, of "''2019''"]
    by (simp add: ne l u servePages_def) (simp add: threePages_def)
qed

section \<open>Properties of the sync orchestrator\<close>

lemma syncMappingWithPagination_boundary:
  "syncMappingWithPagination env m s v = Some (ok, s', v') \<Longrightarrow>
   (ok \<and> s' = s) \<or> (\<not> ok \<and> (\<exists>entry. s' = s\<lparr>errors := errors s @ [entry]\<rparr>))"
  by (auto simp: syncMappingWithPagination_def logError_def
      split: prod.splits sum.splits option.splits)

lemma logError_entry: "\<exists>entry. logError msg e ts s = s\<lparr>errors := errors s @ [entry]\<rparr>"
  by (rule exI) (simp add: logError_def)

lemma syncMappingBulk_value: "syncMappingBulk env m v = Some (Inr b, v') \<Longrightarrow> b = True"
  by (auto simp: syncMappingBulk_def split: prod.splits sum.splits option.splits if_splits)

lemma syncMapping_boundary:
  "syncMapping env m s v = Some (ok, s', v') \<Longrightarrow>
   (ok \<and> s' = s) \<or> (\<not> ok \<and> (\<exists>entry. s' = s\<lparr>errors := errors s @ [entry]\<rparr>))"
proof (cases "requiresPagination (table m)")
  case True
  then show "syncMapping env m s v = Some (ok, s', v') \<Longrightarrow> ?thesis"
    by (simp add: syncMapping_def syncMappingWithPagination_boundary)
next
  case False
  assume r: "syncMapping env m s v = Some (ok, s', v')"
  with False obtain res w' where b: "syncMappingBulk env m v = Some (res, w')"
    by (auto simp: syncMapping_def split: option.splits)
  show ?thesis
  proof (cases res)
    case (Inl e)
    with r b False show ?thesis by (auto simp: syncMapping_def logError_def)
  next
    case (Inr success)
    with b have "syncMappingBulk env m v = Some (Inr success, w')" by simp
    then have "success = True" by (rule syncMappingBulk_value)
    with r b False Inr show ?thesis by (auto simp: syncMapping_def)
  qed
qed


lemma syncMapping_fetch_throws:
  assumes f: "\<forall>v. \<exists>e v'. fetchSavedSearch env (searchId m) 0 v = (Inl e, v')"
  shows "\<exists>entry v'. syncMapping env m s v = Some (False, s\<lparr>errors := errors s @ [entry]\<rparr>, v')"
proof (cases "requiresPagination (table m)")
  case True
  show ?thesis
  proof (cases "getRecordCount (storeCount env) (table m) v")
    case (Pair r v1)
    show ?thesis
    proof (cases r)
      case (Inl e)
      with Pair True show ?thesis
        by (simp add: syncMapping_def syncMappingWithPagination_def logError_entry)
    next
      case (Inr c)
      from f obtain e v2 where fe: "fetchSavedSearch env (searchId m) 0 v1 = (Inl e, v2)" by blast
      have "\<exists>e' v3. fetchSavedSearchPage (fetchSavedSearch env) (searchId m) 1 v1 = (Inl e', v3)"
        by (simp add: fetchSavedSearchPage_def fe)
      then obtain e' v3 where
        "fetchSavedSearchPage (fetchSavedSearch env) (searchId m) 1 v1 = (Inl e', v3)" by blast
      then have "paginationLoop env m 1 0 v1 = Some (Inl e', v3)"
        by (subst paginationLoop.simps) simp
      with Pair Inr True show ?thesis
        by (simp add: syncMapping_def syncMappingWithPagination_def logError_entry)
    qed
  qed
next
  case False
  show ?thesis
  proof (cases "getRecordCount (storeCount env) (table m) v")
    case (Pair r v1)
    show ?thesis
    proof (cases r)
      case (Inl e)
      with Pair False show ?thesis
        by (simp add: syncMapping_def syncMappingBulk_def logError_entry)
    next
      case (Inr c)
      from f obtain e v2 where fe: "fetchSavedSearch env (searchId m) 0 v1 = (Inl e, v2)" by blast
      have "fetchAllSavedSearchPagesLambda (fetchSavedSearch env) (searchId m) v1 = Some (Inl e, v2)"
        unfolding fetchAllSavedSearchPagesLambda_def
        by (subst fetchAllLoopLambda.simps) (simp add: fe)
      with Pair Inr False show ?thesis
        by (simp add: syncMapping_def syncMappingBulk_def logError_entry)
    qed
  qed
qed

text \<open>
  Every statement of the two sync paths that can throw is inside the \<open>try\<close>: the count
  before, the fetch, the write and the count after. Each of them failing makes the mapping
  fail with that error.
\<close>

lemma syncMappingBulk_throw_sites:
  "getRecordCount (storeCount env) (table m) w = (Inl e, w1)
     \<Longrightarrow> syncMappingBulk env m w = Some (Inl e, w1)"
  "getRecordCount (storeCount env) (table m) w = (Inr c, w1)
     \<Longrightarrow> fetchAllSavedSearchPagesLambda (fetchSavedSearch env) (searchId m) w1 = Some (Inl e, w2)
     \<Longrightarrow> syncMappingBulk env m w = Some (Inl e, w2)"
  "getRecordCount (storeCount env) (table m) w = (Inr c, w1)
     \<Longrightarrow> fetchAllSavedSearchPagesLambda (fetchSavedSearch env) (searchId m) w1 = Some (Inr raw, w2)
     \<Longrightarrow> raw \<noteq> []
     \<Longrightarrow> upsert (storeUpsert env) (table m)
           (Some (processRecordsForTable (rowClock env w2) (table m) raw))
           (conflictKeyBulk (table m)) w2 = (Inl e, w3)
     \<Longrightarrow> syncMappingBulk env m w = Some (Inl e, w3)"
  "getRecordCount (storeCount env) (table m) w = (Inr c, w1)
     \<Longrightarrow> fetchAllSavedSearchPagesLambda (fetchSavedSearch env) (searchId m) w1 = Some (Inr raw, w2)
     \<Longrightarrow> raw \<noteq> []
     \<Longrightarrow> upsert (storeUpsert env) (table m)
           (Some (processRecordsForTable (rowClock env w2) (table m) raw))
           (conflictKeyBulk (table m)) w2 = (Inr res, w3)
     \<Longrightarrow> getRecordCount (storeCount env) (table m) w3 = (Inl e, w4)
     \<Longrightarrow> syncMappingBulk env m w = Some (Inl e, w4)"
proof -
  have ne: "raw \<noteq> [] \<Longrightarrow> processRecordsForTable (rowClock env w2) (table m) raw \<noteq> []"
    using length_processRecordsForTable [of "rowClock env w2" "table m" raw] by auto
  show "getRecordCount (storeCount env) (table m) w = (Inl e, w1)
     \<Longrightarrow> syncMappingBulk env m w = Some (Inl e, w1)"
    by (simp add: syncMappingBulk_def)
  show "getRecordCount (storeCount env) (table m) w = (Inr c, w1)
     \<Longrightarrow> fetchAllSavedSearchPagesLambda (fetchSavedSearch env) (searchId m) w1 = Some (Inl e, w2)
     \<Longrightarrow> syncMappingBulk env m w = Some (Inl e, w2)"
    by (simp add: syncMappingBulk_def)
  show "getRecordCount (storeCount env) (table m) w = (Inr c, w1)
     \<Longrightarrow> fetchAllSavedSearchPagesLambda (fetchSavedSearch env) (searchId m) w1 = Some (Inr raw, w2)
     \<Longrightarrow> raw \<noteq> []
     \<Longrightarrow> upsert (storeUpsert env) (table m)
           (Some (processRecordsForTable (rowClock env w2) (table m) raw))
           (conflictKeyBulk (table m)) w2 = (Inl e, w3)
     \<Longrightarrow> syncMappingBulk env m w = Some (Inl e, w3)"
    using ne by (simp add: syncMappingBulk_def)
  show "getRecordCount (storeCount env) (table m) w = (Inr c, w1)
     \<Longrightarrow> fetchAllSavedSearchPagesLambda (fetchSavedSearch env) (searchId m) w1 = Some (Inr raw, w2)
     \<Longrightarrow> raw \<noteq> []
     \<Longrightarrow> upsert (storeUpsert env) (table m)
           (Some (processRecordsForTable (rowClock env w2) (table m) raw))
           (conflictKeyBulk (table m)) w2 = (Inr res, w3)
     \<Longrightarrow> getRecordCount (storeCount env) (table m) w3 = (Inl e, w4)
     \<Longrightarrow> syncMappingBulk env m w = Some (Inl e, w4)"
    using ne by (simp add: syncMappingBulk_def)
qed

lemma syncMapping_bulk_catch:
  "\<not> requiresPagination (table m) \<Longrightarrow> syncMappingBulk env m w = Some (Inl e, w')
   \<Longrightarrow> syncMapping env m s w = Some (False, logError (syncFailure m) e (now env w') s, w')"
  by (simp add: syncMapping_def)

lemma paginationLoop_throw_sites:
  "fetchSavedSearchPage (fetchSavedSearch env) (searchId m) pageIndex w = (Inl e, w1)
     \<Longrightarrow> paginationLoop env m pageIndex n w = Some (Inl e, w1)"
  "fetchSavedSearchPage (fetchSavedSearch env) (searchId m) pageIndex w = (Inr page, w1)
     \<Longrightarrow> pdata page \<noteq> []
     \<Longrightarrow> upsert (storeUpsert env) (table m)
           (Some (processRecordsForTable (rowClock env w1) (table m) (pdata page)))
           (conflictKeyPaginated (table m)) w1 = (Inl e, w2)
     \<Longrightarrow> paginationLoop env m pageIndex n w = Some (Inl e, w2)"
  by (subst paginationLoop.simps, simp)+

lemma syncMappingWithPagination_throw_sites:
  "getRecordCount (storeCount env) (table m) w = (Inl e, w1)
     \<Longrightarrow> syncMappingWithPagination env m s w
         = Some (False, logError (paginationFailure m) e (now env w1) s, w1)"
  "getRecordCount (storeCount env) (table m) w = (Inr c, w1)
     \<Longrightarrow> paginationLoop env m 1 0 w1 = Some (Inl e, w2)
     \<Longrightarrow> syncMappingWithPagination env m s w
         = Some (False, logError (paginationFailure m) e (now env w2) s, w2)"
  "getRecordCount (storeCount env) (table m) w = (Inr c, w1)
     \<Longrightarrow> paginationLoop env m 1 0 w1 = Some (Inr n, w2)
     \<Longrightarrow> getRecordCount (storeCount env) (table m) w2 = (Inl e, w3)
     \<Longrightarrow> syncMappingWithPagination env m s w
         = Some (False, logError (paginationFailure m) e (now env w3) s, w3)"
  by (simp_all add: syncMappingWithPagination_def)

lemma syncMapping_paginated:
  "requiresPagination (table m) \<Longrightarrow> syncMapping env m s w = syncMappingWithPagination env m s w"
  by (simp add: syncMapping_def)

lemma validateConnections_True:
  "validateConnections env ms st w = (True, st1, w1) \<Longrightarrow> st1 = st"
  by (auto simp: validateConnections_def split: prod.splits option.splits list.splits sum.splits)

lemma syncLoop_counts:
  assumes "\<forall>m \<in> set ms. \<forall>s v. syncMapping env m s v \<noteq> None"
  shows "\<exists>st' w'. syncLoop env ms st w = Some (st', w')
     \<and> successfulSyncs st' + failedSyncs st' = successfulSyncs st + failedSyncs st + length ms
     \<and> successfulSyncs st \<le> successfulSyncs st' \<and> failedSyncs st \<le> failedSyncs st'
     \<and> length (errors st') = length (errors st) + (failedSyncs st' - failedSyncs st)
     \<and> totalMappings st' = totalMappings st"
  using assms
proof (induction ms arbitrary: st w)
  case Nil
  then show ?case by simp
next
  case (Cons m rest)
  from Cons.prems obtain ok s1 w1 where r: "syncMapping env m st w = Some (ok, s1, w1)"
    by (metis list.set_intros(1) not_None_eq prod_cases3)
  have rest: "\<forall>m \<in> set rest. \<forall>s v. syncMapping env m s v \<noteq> None" using Cons.prems by simp
  show ?case
  proof (cases ok)
    case True
    with syncMapping_boundary [OF r] have s1: "s1 = st" by simp
    from Cons.IH [OF rest, of "st\<lparr>successfulSyncs := successfulSyncs st + 1\<rparr>" w1]
    show ?thesis using r True s1 by auto
  next
    case False
    with syncMapping_boundary [OF r] obtain entry where s1: "s1 = st\<lparr>errors := errors st @ [entry]\<rparr>"
      by auto
    from Cons.IH [OF rest, of "s1\<lparr>failedSyncs := failedSyncs s1 + 1\<rparr>" w1]
    show ?thesis using r False s1 by auto
  qed
qed


lemma runSync_unfold:
  "validateConnections env ms
       (stats\<lparr>startTime := Some (now env w), totalMappings := length ms\<rparr>) w = (True, st1, w1)
   \<Longrightarrow> syncLoop env ms st1 w1 = Some (st2, w2)
   \<Longrightarrow> runSync env ms stats w = Some (st2\<lparr>endTime := Some (now env w2)\<rparr>, w2)"
  by (simp add: runSync_def)

lemma runSync_counts:
  assumes val: "fst (validateConnections env ms
                  (stats\<lparr>startTime := Some (now env w), totalMappings := length ms\<rparr>) w)"
    and ret: "\<forall>x \<in> set ms. \<forall>s v. syncMapping env x s v \<noteq> None"
  shows "\<exists>st' w'. runSync env ms stats w = Some (st', w')
     \<and> totalMappings st' = length ms
     \<and> successfulSyncs st' + failedSyncs st' = successfulSyncs stats + failedSyncs stats + length ms
     \<and> successfulSyncs stats \<le> successfulSyncs st' \<and> failedSyncs stats \<le> failedSyncs st'
     \<and> length (errors st') = length (errors stats) + (failedSyncs st' - failedSyncs stats)"
proof -
  let ?st0 = "stats\<lparr>startTime := Some (now env w), totalMappings := length ms\<rparr>"
  obtain b st1 w1 where v: "validateConnections env ms ?st0 w = (b, st1, w1)"
    by (metis prod_cases3)
  with val have b: "b = True" by simp
  with v have st1: "st1 = ?st0" by (simp add: validateConnections_True)
  from syncLoop_counts [OF ret, of ?st0 w1]
  obtain st2 w2 where l: "syncLoop env ms ?st0 w1 = Some (st2, w2)"
    and c: "successfulSyncs st2 + failedSyncs st2 = successfulSyncs ?st0 + failedSyncs ?st0 + length ms"
      "successfulSyncs ?st0 \<le> successfulSyncs st2" "failedSyncs ?st0 \<le> failedSyncs st2"
      "length (errors st2) = length (errors ?st0) + (failedSyncs st2 - failedSyncs ?st0)"
      "totalMappings st2 = totalMappings ?st0"
    by blast
  have "runSync env ms stats w = Some (st2\<lparr>endTime := Some (now env w2)\<rparr>, w2)"
    by (simp add: runSync_def v b st1 l)
  with c show ?thesis by simp
qed

lemma syncLoop_success:
  "syncMapping env m st w = Some (True, st1, w1) \<Longrightarrow>
   syncLoop env (m # rest) st w
     = syncLoop env rest (st1\<lparr>successfulSyncs := successfulSyncs st1 + 1\<rparr>) w1"
  by simp

lemma syncLoop_failure:
  "syncMapping env m st w = Some (False, st1, w1) \<Longrightarrow>
   syncLoop env (m # rest) st w
     = syncLoop env rest (st1\<lparr>failedSyncs := failedSyncs st1 + 1\<rparr>) w1"
  by simp

lemma runSync_three_mappings:
  assumes val: "fst (validateConnections env [m1, m2, m3]
                  (stats\<lparr>startTime := Some (now env w), totalMappings := 3\<rparr>) w)"
    and ok1: "\<forall>s v. \<exists>v'. syncMapping env m1 s v = Some (True, s, v')"
    and bad2: "\<forall>u. \<exists>e u'. fetchSavedSearch env (searchId m2) 0 u = (Inl e, u')"
    and ok3: "\<forall>s v. \<exists>v'. syncMapping env m3 s v = Some (True, s, v')"
  shows "\<exists>st' w'. runSync env [m1, m2, m3] stats w = Some (st', w')
     \<and> totalMappings st' = 3
     \<and> successfulSyncs st' = successfulSyncs stats + 2
     \<and> failedSyncs st' = failedSyncs stats + 1
     \<and> length (errors st') = length (errors stats) + 1"
proof -
  let ?st0 = "stats\<lparr>startTime := Some (now env w), totalMappings := 3\<rparr>"
  obtain b st1 w1 where v: "validateConnections env [m1, m2, m3] ?st0 w = (b, st1, w1)"
    by (metis prod_cases3)
  with val have b: "b = True" by simp
  with v have st1: "st1 = ?st0" by (simp add: validateConnections_True)
  let ?sa = "?st0\<lparr>successfulSyncs := successfulSyncs ?st0 + 1\<rparr>"
  from ok1 obtain w2 where r1: "syncMapping env m1 ?st0 w1 = Some (True, ?st0, w2)" by blast
  from syncMapping_fetch_throws [OF bad2, of ?sa w2]
  obtain entry w3 where
    r2: "syncMapping env m2 ?sa w2 = Some (False, ?sa\<lparr>errors := errors ?sa @ [entry]\<rparr>, w3)"
    by blast
  let ?se = "?sa\<lparr>errors := errors ?sa @ [entry]\<rparr>"
  let ?sb = "?se\<lparr>failedSyncs := failedSyncs ?se + 1\<rparr>"
  from ok3 obtain w4 where r3: "syncMapping env m3 ?sb w3 = Some (True, ?sb, w4)" by blast
  let ?sc = "?sb\<lparr>successfulSyncs := successfulSyncs ?sb + 1\<rparr>"
  have "syncLoop env [m1, m2, m3] ?st0 w1 = syncLoop env [m2, m3] ?sa w2"
    by (rule syncLoop_success [OF r1])
  also have "\<dots> = syncLoop env [m3] ?sb w3"
    by (rule syncLoop_failure [OF r2])
  also have "\<dots> = syncLoop env [] ?sc w4"
    by (rule syncLoop_success [OF r3])
  finally have l: "syncLoop env [m1, m2, m3] ?st0 w1 = Some (?sc, w4)"
    by (simp only: syncLoop.simps)
  have len: "length [m1, m2, m3] = 3" by simp
  have v': "validateConnections env [m1, m2, m3]
       (stats\<lparr>startTime := Some (now env w), totalMappings := length [m1, m2, m3]\<rparr>) w
     = (True, ?st0, w1)"
    using v b st1 by (simp only: len)
  have "runSync env [m1, m2, m3] stats w = Some (?sc\<lparr>endTime := Some (now env w4)\<rparr>, w4)"
    by (rule runSync_unfold [OF v' l])
  then show ?thesis by simp
qed

text \<open>
  Isolation of the mappings. (1) No error leaves \<open>syncMapping\<close>: it returns \<open>true\<close>
  with the statistics untouched, or \<open>false\<close> with exactly one entry appended to
  \<open>errors\<close>. (2) A mapping whose first fetch throws is such a failure. (3) When connection
  validation succeeds and every mapping's sync returns (a remote that never ends a page
  sequence keeps it from returning), \<open>runSync\<close> returns; \<open>totalMappings\<close> is the size
  of the catalog, every mapping has been counted as a success or as a failure, and
  \<open>errors\<close> has grown by one entry per failure. (4) For a catalog of three mappings of
  which only the second one's fetch throws, the run adds 2 to \<open>successfulSyncs\<close>, 1 to
  \<open>failedSyncs\<close> and one entry to \<open>errors\<close>, with \<open>totalMappings = 3\<close>; (5) from the
  statistics of a new manager that is \<open>totalMappings = 3\<close>, \<open>successfulSyncs = 2\<close>,
  \<open>failedSyncs = 1\<close> and exactly one entry in \<open>errors\<close>.
\<close>

theorem mapping_isolation:
  "(syncMapping env m s v = Some (ok, s', v') \<longrightarrow>
      (ok \<and> s' = s) \<or> (\<not> ok \<and> (\<exists>entry. s' = s\<lparr>errors := errors s @ [entry]\<rparr>)))
   \<and> ((\<forall>u. \<exists>e u'. fetchSavedSearch env (searchId m) 0 u = (Inl e, u')) \<longrightarrow>
      (\<exists>entry v'. syncMapping env m s v = Some (False, s\<lparr>errors := errors s @ [entry]\<rparr>, v')))
   \<and> (fst (validateConnections env ms
              (stats\<lparr>startTime := Some (now env w), totalMappings := length ms\<rparr>) w)
       \<and> (\<forall>x \<in> set ms. \<forall>s v. syncMapping env x s v \<noteq> None) \<longrightarrow>
      (\<exists>st' w'. runSync env ms stats w = Some (st', w')
         \<and> totalMappings st' = length ms
         \<and> successfulSyncs st' + failedSyncs st'
             = successfulSyncs stats + failedSyncs stats + length ms
         \<and> successfulSyncs stats \<le> successfulSyncs st' \<and> failedSyncs stats \<le> failedSyncs st'
         \<and> length (errors st') = length (errors stats) + (failedSyncs st' - failedSyncs stats)))
   \<and> (fst (validateConnections env [m1, m2, m3]
              (stats\<lparr>startTime := Some (now env w), totalMappings := 3\<rparr>) w)
       \<and> (\<forall>s v. \<exists>v'. syncMapping env m1 s v = Some (True, s, v'))
       \<and> (\<forall>u. \<exists>e u'. fetchSavedSearch env (searchId m2) 0 u = (Inl e, u'))
       \<and> (\<forall>s v. \<exists>v'. syncMapping env m3 s v = Some (True, s, v')) \<longrightarrow>
      (\<exists>st' w'. runSync env [m1, m2, m3] stats w = Some (st', w')
         \<and> totalMappings st' = 3
         \<and> successfulSyncs st' = successfulSyncs stats + 2
         \<and> failedSyncs st' = failedSyncs stats + 1
         \<and> length (errors st') = length (errors stats) + 1))
   \<and> (fst (validateConnections env [m1, m2, m3]
              (newSyncStats\<lparr>startTime := Some (now env w), totalMappings := 3\<rparr>) w)
       \<and> (\<forall>s v. \<exists>v'. syncMapping env m1 s v = Some (True, s, v'))
       \<and> (\<forall>u. \<exists>e u'. fetchSavedSearch env (searchId m2) 0 u = (Inl e, u'))
       \<and> (\<forall>s v. \<exists>v'. syncMapping env m3 s v = Some (True, s, v')) \<longrightarrow>
      (\<exists>st' w'. runSync env [m1, m2, m3] newSyncStats w = Some (st', w')
         \<and> totalMappings st' = 3 \<and> successfulSyncs st' = 2 \<and> failedSyncs st' = 1
         \<and> length (errors st') = 1))"
proof (intro conjI impI)
  show "(ok \<and> s' = s) \<or> (\<not> ok \<and> (\<exists>entry. s' = s\<lparr>errors := errors s @ [entry]\<rparr>))"
    if "syncMapping env m s v = Some (ok, s', v')"
    using that by (rule syncMapping_boundary)
  show "\<exists>entry v'. syncMapping env m s v = Some (False, s\<lparr>errors := errors s @ [entry]\<rparr>, v')"
    if "\<forall>u. \<exists>e u'. fetchSavedSearch env (searchId m) 0 u = (Inl e, u')"
    using that by (rule syncMapping_fetch_throws)
  show "\<exists>st' w'. runSync env ms stats w = Some (st', w')
         \<and> totalMappings st' = length ms
         \<and> successfulSyncs st' + failedSyncs st'
             = successfulSyncs stats + failedSyncs stats + length ms
         \<and> successfulSyncs stats \<le> successfulSyncs st' \<and> failedSyncs stats \<le> failedSyncs st'
         \<and> length (errors st') = length (errors stats) + (failedSyncs st' - failedSyncs stats)"
    if "fst (validateConnections env ms
              (stats\<lparr>startTime := Some (now env w), totalMappings := length ms\<rparr>) w)
       \<and> (\<forall>x \<in> set ms. \<forall>s v. syncMapping env x s v \<noteq> None)"
  proof -
    from that have a: "fst (validateConnections env ms
              (stats\<lparr>startTime := Some (now env w), totalMappings := length ms\<rparr>) w)"
      and b: "\<forall>x \<in> set ms. \<forall>s v. syncMapping env x s v \<noteq> None" by simp_all
    from runSync_counts [OF a b] show ?thesis .
  qed
  show "\<exists>st' w'. runSync env [m1, m2, m3] stats w = Some (st', w')
         \<and> totalMappings st' = 3
         \<and> successfulSyncs st' = successfulSyncs stats + 2
         \<and> failedSyncs st' = failedSyncs stats + 1
         \<and> length (errors st') = length (errors stats) + 1"
    if "fst (validateConnections env [m1, m2, m3]
              (stats\<lparr>startTime := Some (now env w), totalMappings := 3\<rparr>) w)
       \<and> (\<forall>s v. \<exists>v'. syncMapping env m1 s v = Some (True, s, v'))
       \<and> (\<forall>u. \<exists>e u'. fetchSavedSearch env (searchId m2) 0 u = (Inl e, u'))
       \<and> (\<forall>s v. \<exists>v'. syncMapping env m3 s v = Some (True, s, v'))"
  proof -
    from that have a: "fst (validateConnections env [m1, m2, m3]
              (stats\<lparr>startTime := Some (now env w), totalMappings := 3\<rparr>) w)"
      and b: "\<forall>s v. \<exists>v'. syncMapping env m1 s v = Some (True, s, v')"
      and c: "\<forall>u. \<exists>e u'. fetchSavedSearch env (searchId m2) 0 u = (Inl e, u')"
      and d: "\<forall>s v. \<exists>v'. syncMapping env m3 s v = Some (True, s, v')" by simp_all
    from runSync_three_mappings [OF a b c d] show ?thesis .
  qed
  show "\<exists>st' w'. runSync env [m1, m2, m3] newSyncStats w = Some (st', w')
         \<and> totalMappings st' = 3 \<and> successfulSyncs st' = 2 \<and> failedSyncs st' = 1
         \<and> length (errors st') = 1"
    if "fst (validateConnections env [m1, m2, m3]
              (newSyncStats\<lparr>startTime := Some (now env w), totalMappings := 3\<rparr>) w)
       \<and> (\<forall>s v. \<exists>v'. syncMapping env m1 s v = Some (True, s, v'))
       \<and> (\<forall>u. \<exists>e u'. fetchSavedSearch env (searchId m2) 0 u = (Inl e, u'))
       \<and> (\<forall>s v. \<exists>v'. syncMapping env m3 s v = Some (True, s, v'))"
  proof -
    from that have a: "fst (validateConnections env [m1, m2, m3]
              (newSyncStats\<lparr>startTime := Some (now env w), totalMappings := 3\<rparr>) w)"
      and b: "\<forall>s v. \<exists>v'. syncMapping env m1 s v = Some (True, s, v')"
      and c: "\<forall>u. \<exists>e u'. fetchSavedSearch env (searchId m2) 0 u = (Inl e, u')"
      and d: "\<forall>s v. \<exists>v'. syncMapping env m3 s v = Some (True, s, v')" by simp_all
    from runSync_three_mappings [OF a b c d] show ?thesis
      by (simp add: newSyncStats_def numeral_2_eq_2)
  qed
qed

lemma chunkLoop_small: "xs \<noteq> [] \<Longrightarrow> length xs \<le> chunkSize \<Longrightarrow> chunkLoop xs 0 = [xs]"
proof -
  assume ne: "xs \<noteq> []" and le: "length xs \<le> chunkSize"
  have "chunkLoop xs (0 + chunkSize) = []" using le by (subst chunkLoop.simps) simp
  then show ?thesis using ne le by (subst chunkLoop.simps) (simp add: slice_def)
qed

lemma upsert_sampleStore:
  assumes "isValidTableName t" and "rows \<noteq> []" and "length rows \<le> chunkSize"
    and "isValidConflictColumn oc"
  shows "upsert sampleStoreUpsert t (Some rows) oc v = (Inr (Upserted (length rows) 0), v)"
proof -
  have "oc \<noteq> JUndefined" using assms(4) by (auto simp: isValidConflictColumn_def)
  moreover have "sampleStoreUpsert t rows oc v = (Resolved None None, v)"
    by (simp add: sampleStoreUpsert_def)
  ultimately show ?thesis using assms
    by (simp add: upsert_def chunkLoop_small dataOrEmpty_def)
qed

lemma getRecordCount_sample:
  "isValidTableName t \<Longrightarrow> getRecordCount sampleStoreCount t v = (Inr (Some 0), v)"
  by (simp add: getRecordCount_def sampleStoreCount_def)

lemma sampleEnv_fields:
  "fetchSavedSearch sampleEnv = sampleFetch" "storeUpsert sampleEnv = sampleStoreUpsert"
  "storeCount sampleEnv = sampleStoreCount" "now sampleEnv = sampleNow"
  "rowClock sampleEnv = sampleRowClock"
  "validateCredentials sampleEnv = sampleValidateCredentials"
  "validateConnection sampleEnv = sampleValidateConnection"
  by (simp_all add: sampleEnv_def)

lemma sample_customers_sync: "syncMapping sampleEnv customersMapping s v = Some (True, s, v)"
proof -
  have t: "table customersMapping = ''customers''" and i: "searchId customersMapping = ''2019''"
    by (simp_all add: customersMapping_def)
  have np: "\<not> requiresPagination ''customers''"
    by (simp add: requiresPagination_def PAGINATED_TABLES_def)
  have f: "fetchAllSavedSearchPagesLambda sampleFetch ''2019'' v = Some (Inr [[(''name'', RStr ''Acme'')]], v)"
    unfolding fetchAllSavedSearchPagesLambda_def
    by (subst fetchAllLoopLambda.simps) (simp add: sampleFetch_def parseNetSuiteResponseLambda_def)
  let ?rows = "processRecordsForTable (sampleRowClock v) ''customers'' [[(''name'', RStr ''Acme'')]]"
  have l: "length ?rows = 1" by (simp add: length_processRecordsForTable)
  then have ne: "?rows \<noteq> []" by auto
  have le: "length ?rows \<le> chunkSize" using l by (simp add: chunkSize_def)
  have k: "conflictKeyBulk ''customers'' = JStr ''customer_internal_id''"
    by (simp add: conflictKeyBulk_def getTableIdColumn_def tableIdMapLookup_def tableIdMap_def
        isDetailTable_def)
  have u: "upsert sampleStoreUpsert ''customers'' (Some ?rows) (JStr ''customer_internal_id'') v
      = (Inr (Upserted (length ?rows) 0), v)"
    by (rule upsert_sampleStore [OF isValidTableName_customers ne le
          isValidConflictColumn_customer_internal_id])
  have b: "syncMappingBulk sampleEnv customersMapping v = Some (Inr True, v)"
    using ne
    by (simp add: syncMappingBulk_def sampleEnv_fields t i f k u
        getRecordCount_sample [OF isValidTableName_customers])
  show ?thesis by (simp add: syncMapping_def t np b)
qed

lemma sample_invoice_lines_sync:
  "syncMapping sampleEnv invoiceLinesMapping s v = Some (True, s, v)"
proof -
  have t: "table invoiceLinesMapping = ''invoices_detailed''"
    and i: "searchId invoiceLinesMapping = ''2021''"
    by (simp_all add: invoiceLinesMapping_def)
  have p: "requiresPagination ''invoices_detailed''"
    by (simp add: requiresPagination_def PAGINATED_TABLES_def)
  have vt: "isValidTableName ''invoices_detailed''" by (simp add: isValidTableName_def isAlnum_def)
  have vc: "isValidConflictColumn (JStr ''pkey'')" by (simp add: isValidConflictColumn_def isAlnum_def)
  have f: "fetchSavedSearchPage sampleFetch ''2021'' (Suc 0) v
      = (Inr \<lparr>pdata = [[(''name'', RStr ''Acme'')]], hasMore = False\<rparr>, v)"
    by (simp add: fetchSavedSearchPage_def sampleFetch_def parseNetSuiteResponseLambda_def)
  let ?rows = "processRecordsForTable (sampleRowClock v) ''invoices_detailed'' [[(''name'', RStr ''Acme'')]]"
  have l: "length ?rows = 1" by (simp add: length_processRecordsForTable)
  then have ne: "?rows \<noteq> []" by auto
  have le: "length ?rows \<le> chunkSize" using l by (simp add: chunkSize_def)
  have k: "conflictKeyPaginated ''invoices_detailed'' = JStr ''pkey''"
    by (simp add: conflictKeyPaginated_def isDetailTable_def)
  have u: "upsert sampleStoreUpsert ''invoices_detailed'' (Some ?rows) (JStr ''pkey'') v
      = (Inr (Upserted (length ?rows) 0), v)"
    by (rule upsert_sampleStore [OF vt ne le vc])
  have lp: "paginationLoop sampleEnv invoiceLinesMapping (Suc 0) 0 v = Some (Inr (Suc 0), v)"
    by (subst paginationLoop.simps) (simp add: sampleEnv_fields t i f k u l)
  show ?thesis
    by (simp add: syncMapping_def syncMappingWithPagination_def t p lp sampleEnv_fields
        getRecordCount_sample [OF vt])
qed

lemma sample_invoices_fetch_throws:
  "sampleFetch (searchId invoicesMapping) 0 u
     = (Inl (Error ''NetSuite server error. Please try again later.''), u)"
  by (simp add: invoicesMapping_def sampleFetch_def)

lemma sample_validation:
  "validateConnections sampleEnv sampleCatalog st v = (True, st, v)"
  by (simp add: validateConnections_def sampleEnv_fields sampleValidateCredentials_def
      sampleValidateConnection_def sampleCatalog_def)

theorem mapping_isolation_witness:
  "fst (validateConnections sampleEnv sampleCatalog
          (newSyncStats\<lparr>startTime := Some (now sampleEnv 0), totalMappings := 3\<rparr>) 0)
   \<and> syncMapping sampleEnv customersMapping newSyncStats 0 = Some (True, newSyncStats, 0)
   \<and> fetchSavedSearch sampleEnv (searchId invoicesMapping) 0 0
        = (Inl (Error ''NetSuite server error. Please try again later.''), 0)
   \<and> syncMapping sampleEnv invoiceLinesMapping newSyncStats 0 = Some (True, newSyncStats, 0)
   \<and> (\<exists>st' w'. runSync sampleEnv sampleCatalog newSyncStats 0 = Some (st', w')
         \<and> totalMappings st' = 3 \<and> successfulSyncs st' = 2 \<and> failedSyncs st' = 1
         \<and> length (errors st') = 1)"
proof -
  have a: "fst (validateConnections sampleEnv [customersMapping, invoicesMapping, invoiceLinesMapping]
          (newSyncStats\<lparr>startTime := Some (now sampleEnv 0), totalMappings := 3\<rparr>) 0)"
    using sample_validation [of "newSyncStats\<lparr>startTime := Some (now sampleEnv 0), totalMappings := 3\<rparr>" 0]
    by (simp add: sampleCatalog_def)
  have b: "\<forall>s v. \<exists>v'. syncMapping sampleEnv customersMapping s v = Some (True, s, v')"
    by (simp add: sample_customers_sync)
  have c: "\<forall>u. \<exists>e u'. fetchSavedSearch sampleEnv (searchId invoicesMapping) 0 u = (Inl e, u')"
    by (simp add: sampleEnv_fields sample_invoices_fetch_throws)
  have d: "\<forall>s v. \<exists>v'. syncMapping sampleEnv invoiceLinesMapping s v = Some (True, s, v')"
    by (simp add: sample_invoice_lines_sync)
  from mapping_isolation [where env = sampleEnv and w = 0
      and ?m1.0 = customersMapping and ?m2.0 = invoicesMapping and ?m3.0 = invoiceLinesMapping]
    a b c d
  have "\<exists>st' w'. runSync sampleEnv [customersMapping, invoicesMapping, invoiceLinesMapping]
            newSyncStats 0 = Some (st', w')
         \<and> totalMappings st' = 3 \<and> successfulSyncs st' = 2 \<and> failedSyncs st' = 1
         \<and> length (errors st') = 1"
    by blast
  then have r: "\<exists>st' w'. runSync sampleEnv sampleCatalog newSyncStats 0 = Some (st', w')
         \<and> totalMappings st' = 3 \<and> successfulSyncs st' = 2 \<and> failedSyncs st' = 1
         \<and> length (errors st') = 1"
    by (simp add: sampleCatalog_def)
  show ?thesis
    using a r
    by (simp add: sampleCatalog_def sample_customers_sync sample_invoice_lines_sync
        sampleEnv_fields sample_invoices_fetch_throws)
qed

lemma sample_invoices_sync:
  "syncMapping sampleEnv invoicesMapping s v
     = Some (False, s\<lparr>errors := errors s @ [invoicesFailure]\<rparr>, v)"
proof -
  have t: "table invoicesMapping = ''invoices''" and i: "searchId invoicesMapping = ''2020''"
    and n: "name invoicesMapping = ''Invoices''"
    by (simp_all add: invoicesMapping_def)
  have np: "\<not> requiresPagination ''invoices''"
    by (simp add: requiresPagination_def PAGINATED_TABLES_def)
  have vt: "isValidTableName ''invoices''" by (simp add: isValidTableName_def isAlnum_def)
  have f: "fetchAllSavedSearchPagesLambda sampleFetch ''2020'' v
      = Some (Inl (Error ''NetSuite server error. Please try again later.''), v)"
    unfolding fetchAllSavedSearchPagesLambda_def
    by (subst fetchAllLoopLambda.simps) (simp add: sampleFetch_def)
  have b: "syncMappingBulk sampleEnv invoicesMapping v
      = Some (Inl (Error ''NetSuite server error. Please try again later.''), v)"
    by (simp add: syncMappingBulk_def sampleEnv_fields t i f getRecordCount_sample [OF vt])
  show ?thesis
    by (simp add: syncMapping_def t np b logError_def syncFailure_def n sampleEnv_fields
        sampleNow_def invoicesFailure_def)
qed

lemma sample_run:
  "runSync sampleEnv sampleCatalog s v
     = Some (s\<lparr>startTime := Some ''2024-05-01T06:00:00.000Z'', totalMappings := 3,
               successfulSyncs := successfulSyncs s + 2, failedSyncs := failedSyncs s + 1,
               errors := errors s @ [invoicesFailure],
               endTime := Some ''2024-05-01T06:00:00.000Z''\<rparr>, v)"
proof -
  let ?s0 = "s\<lparr>startTime := Some (now sampleEnv v), totalMappings := length sampleCatalog\<rparr>"
  let ?s1 = "?s0\<lparr>successfulSyncs := successfulSyncs ?s0 + 1\<rparr>"
  let ?s2 = "?s1\<lparr>errors := errors ?s1 @ [invoicesFailure]\<rparr>"
  let ?s3 = "?s2\<lparr>failedSyncs := failedSyncs ?s2 + 1\<rparr>"
  let ?s4 = "?s3\<lparr>successfulSyncs := successfulSyncs ?s3 + 1\<rparr>"
  have "syncLoop sampleEnv sampleCatalog ?s0 v
      = syncLoop sampleEnv [invoicesMapping, invoiceLinesMapping] ?s1 v"
    unfolding sampleCatalog_def by (rule syncLoop_success [OF sample_customers_sync])
  also have "\<dots> = syncLoop sampleEnv [invoiceLinesMapping] ?s3 v"
    by (rule syncLoop_failure [OF sample_invoices_sync])
  also have "\<dots> = syncLoop sampleEnv [] ?s4 v"
    by (rule syncLoop_success [OF sample_invoice_lines_sync])
  finally have l: "syncLoop sampleEnv sampleCatalog ?s0 v = Some (?s4, v)"
    by (simp only: syncLoop.simps)
  have "runSync sampleEnv sampleCatalog s v = Some (?s4\<lparr>endTime := Some (now sampleEnv v)\<rparr>, v)"
    by (rule runSync_unfold [OF sample_validation l])
  then show ?thesis
    by (simp add: sampleEnv_fields sampleNow_def sampleCatalog_def)
qed

text \<open>
  Claim C1 gives the statistics that \<open>runSync\<close> returns for a catalog of three mappings
  of which only the second one's fetch throws: \<open>totalMappings = 3\<close>,
  \<open>successfulSyncs = 2\<close>, \<open>failedSyncs = 1\<close> and exactly one entry in \<open>errors\<close>. The code
  returns them on the first run of a manager only. \<open>runSync\<close> stamps \<open>startTime\<close> and
  \<open>totalMappings\<close> anew but goes on from the counters and the error list it finds, and the
  module exports one manager, which the scheduler runs again at every interval: the second
  of two such runs, both with a passing validation, returns 4 successes, 2 failures and two
  entries in \<open>errors\<close> for its three mappings.
\<close>

theorem second_run_adds_to_first:
  "runSync sampleEnv sampleCatalog newSyncStats 0 = Some (statsAfterFirstRun, 0)
   \<and> validateConnections sampleEnv sampleCatalog
        (statsAfterFirstRun\<lparr>startTime := Some (now sampleEnv 0), totalMappings := 3\<rparr>) 0
       = (True, statsAfterFirstRun\<lparr>startTime := Some (now sampleEnv 0), totalMappings := 3\<rparr>, 0)
   \<and> runSync sampleEnv sampleCatalog statsAfterFirstRun 0 = Some (statsAfterSecondRun, 0)
   \<and> totalMappings statsAfterSecondRun = 3
   \<and> successfulSyncs statsAfterSecondRun = 4
   \<and> failedSyncs statsAfterSecondRun = 2
   \<and> length (errors statsAfterSecondRun) = 2"
  by (simp add: sample_run sample_validation newSyncStats_def statsAfterFirstRun_def
      statsAfterSecondRun_def)

end
